theory Spec2Isabelle
  imports Complex_Main "HOL-Library.Word" "HOL-Library.Multiset" "HOL-Library.Log_Nat"
begin

unbundle bit_operations_syntax

section \<open>Numbers and vectors\<close>

text \<open>
  JavaScript numbers are modelled as mathematical reals: every value of the model is a
  finite number, rounding (of doubles, and of the \<^verbatim>\<open>Float32Array\<close> stores) is not
  modelled. \<^verbatim>\<open>Number.isFinite\<close> therefore holds of every number of the model.
  The vector operations are those of three.js's \<^verbatim>\<open>Vector3\<close>, which the engine calls:
  \<^verbatim>\<open>normalize() { return this.divideScalar( this.length() || 1 ); }\<close>,
  \<^verbatim>\<open>divideScalar( s ) { return this.multiplyScalar( 1 / s ); }\<close>, and
  \<^verbatim>\<open>applyAxisAngle\<close>, which rotates by the quaternion of the axis and the angle.
\<close>

datatype vec3 = Vector3 (vx: real) (vy: real) (vz: real)

definition Number_isFinite :: "real \<Rightarrow> bool" where
  "Number_isFinite x = True"

definition js_or :: "real \<Rightarrow> real \<Rightarrow> real" where
  \<comment> \<open>\<^verbatim>\<open>x || y\<close> on numbers: \<^verbatim>\<open>y\<close> when \<^verbatim>\<open>x\<close> is zero\<close>
  "js_or x y = (if x = 0 then y else x)"

definition lerp :: "real \<Rightarrow> real \<Rightarrow> real \<Rightarrow> real" where
  "lerp x y t = (1 - t) * x + t * y"

definition clamp :: "real \<Rightarrow> real \<Rightarrow> real \<Rightarrow> real" where
  "clamp v lo hi = max lo (min hi v)"

definition vsub :: "vec3 \<Rightarrow> vec3 \<Rightarrow> vec3" where
  "vsub a b = Vector3 (vx a - vx b) (vy a - vy b) (vz a - vz b)"

definition vadd :: "vec3 \<Rightarrow> vec3 \<Rightarrow> vec3" where
  "vadd a b = Vector3 (vx a + vx b) (vy a + vy b) (vz a + vz b)"

definition vlength :: "vec3 \<Rightarrow> real" where
  "vlength v = sqrt (vx v * vx v + vy v * vy v + vz v * vz v)"

definition multiplyScalar :: "vec3 \<Rightarrow> real \<Rightarrow> vec3" where
  "multiplyScalar v s = Vector3 (vx v * s) (vy v * s) (vz v * s)"

definition divideScalar :: "vec3 \<Rightarrow> real \<Rightarrow> vec3" where
  "divideScalar v s = multiplyScalar v (1 / s)"

definition normalize_vec :: "vec3 \<Rightarrow> vec3" where
  "normalize_vec v = divideScalar v (js_or (vlength v) 1)"

definition distanceTo :: "vec3 \<Rightarrow> vec3 \<Rightarrow> real" where
  "distanceTo a b =
     (let dx = vx a - vx b; dy = vy a - vy b; dz = vz a - vz b
      in sqrt (dx * dx + dy * dy + dz * dz))"

definition addScaledVector :: "vec3 \<Rightarrow> vec3 \<Rightarrow> real \<Rightarrow> vec3" where
  "addScaledVector a v s = Vector3 (vx a + vx v * s) (vy a + vy v * s) (vz a + vz v * s)"

definition applyAxisAngle :: "vec3 \<Rightarrow> vec3 \<Rightarrow> real \<Rightarrow> vec3" where
  "applyAxisAngle v axis angle =
     (let halfAngle = angle / 2; s = sin halfAngle;
          qx = vx axis * s; qy = vy axis * s; qz = vz axis * s; qw = cos halfAngle;
          tx = 2 * (qy * vz v - qz * vy v);
          ty = 2 * (qz * vx v - qx * vz v);
          tz = 2 * (qx * vy v - qy * vx v)
      in Vector3 (vx v + qw * tx + qy * tz - qz * ty)
                 (vy v + qw * ty + qz * tx - qx * tz)
                 (vz v + qw * tz + qx * ty - qy * tx))"

definition up :: vec3 where
  "up = Vector3 0 1 0"

section \<open>Deterministic generator\<close>

text \<open>
  \<^verbatim>\<open>mulberry32\<close> closes over the number \<^verbatim>\<open>a\<close>, which is the generator's state; one call
  adds \<^verbatim>\<open>0x6d2b79f5\<close> to it and mixes its low 32 bits. The state is never reduced, and
  it is a double: the sum is exact below \<open>2^53\<close> and rounded to the nearest double
  above (ties to even). The state is an integer here (seeds are integers), and
  \<open>double_of_int\<close> is that rounding. \<^verbatim>\<open>Math.imul\<close> and the bitwise operators work on
  32-bit words.
\<close>

definition double_of_int :: "int \<Rightarrow> int" where
  "double_of_int x =
     (let m = \<bar>x\<bar>
      in if m < 2 ^ 53 then x
         else
           (let k = nat (bitlen m) - 53;
                q = m div 2 ^ k;
                r = m mod 2 ^ k;
                h = 2 ^ (k - 1);
                q1 = (if h < r \<or> (r = h \<and> odd q) then q + 1 else q)
            in sgn x * (q1 * 2 ^ k)))"

definition mulberry32 :: "int \<Rightarrow> real \<times> int" where
  "mulberry32 a =
     (let a' = double_of_int (a + 0x6d2b79f5);
          t0 = (word_of_int a' :: 32 word);
          t1 = (t0 XOR drop_bit 15 t0) * (t0 OR 1);
          t2 = t1 XOR (t1 + (t1 XOR drop_bit 7 t1) * (t1 OR 61))
      in (real (unat (t2 XOR drop_bit 14 t2)) / 4294967296, a'))"

section \<open>Settings\<close>

datatype ShellType = Peony | Ring | Willow | Palm | Crossette | Comet

datatype GroundCollision = Fade | Rebound

record PaletteColor =
  pc_id :: string
  pc_color :: vec3
  pc_weight :: real
  pc_glow :: real

record ShellConfig =
  enabled :: bool
  weight :: real

record ShellParameterConfig =
  sp_particles :: real
  sp_velocity :: real
  sp_spread :: real
  sp_fuseDelay :: real
  sp_trailLength :: real
  sp_trailPersistence :: real
  sp_sparkLifetime :: real
  sp_turbulence :: real
  sp_drag :: real
  sp_gravity :: real
  sp_glow :: real
  sp_fragmentCount :: real
  sp_sparkleChance :: real

record SchedulerSettings =
  playing :: bool
  minSimultaneous :: real
  maxSimultaneous :: real
  staggerMin :: real
  staggerMax :: real
  globalRate :: real
  seed :: int
  sch_reduceMotion :: bool

record InteractionSettings =
  clickToBurst :: bool
  burstAltitudeMultiplier :: real
  followCursor :: bool

record SpawnLayoutSettings =
  launchRadius :: real
  minDistance :: real
  launchHeightMin :: real
  launchHeightMax :: real
  targetAltitudeMin :: real
  targetAltitudeMax :: real
  lateralSpread :: real
  poissonRadius :: real

record PhysicsEnvironmentSettings =
  ph_gravity :: real
  ph_drag :: real
  wind :: vec3
  turbulenceStrength :: real
  turbulenceFrequency :: real
  groundCollision :: GroundCollision

record PostFXSettings =
  glowGlobal :: real
  particleSize :: real

record SettingsState =
  scheduler :: SchedulerSettings
  interaction :: InteractionSettings
  spawnLayout :: SpawnLayoutSettings
  shellTypes :: "ShellType \<Rightarrow> ShellConfig"
  shellParams :: ShellParameterConfig
  physics :: PhysicsEnvironmentSettings
  postFx :: PostFXSettings
  palettes :: "PaletteColor list"

text \<open>
  A palette colour's \<^verbatim>\<open>color\<close> string is represented by the RGB triple that
  \<^verbatim>\<open>THREE.Color\<close> parses it to. The keys of \<^verbatim>\<open>shellTypes\<close> are enumerated in the
  order in which the store declares them.
\<close>

definition shellTypeKeys :: "ShellType list" where
  "shellTypeKeys = [Peony, Ring, Willow, Palm, Crossette, Comet]"

section \<open>Directional pattern generator\<close>

definition randomOnSphere :: "int \<Rightarrow> vec3 \<times> int" where
  "randomOnSphere a =
     (let (u, a1) = mulberry32 a;
          (v, a2) = mulberry32 a1;
          theta = 2 * pi * u;
          phi = arccos (2 * v - 1)
      in (Vector3 (sin phi * cos theta) (cos phi) (sin phi * sin theta), a2))"

text \<open>The loop \<^verbatim>\<open>for (let i = 0; i < 128; i++) result.push(...)\<close>, from index \<open>i\<close>, \<open>n\<close> times.\<close>

fun gen_loop :: "(nat \<Rightarrow> int \<Rightarrow> vec3 \<times> int) \<Rightarrow> nat \<Rightarrow> nat \<Rightarrow> int \<Rightarrow> vec3 list \<times> int" where
  "gen_loop f i 0 a = ([], a)"
| "gen_loop f i (Suc n) a =
     (let (d, a1) = f i a; (ds, a2) = gen_loop f (Suc i) n a1 in (d # ds, a2))"

definition peony_dir :: "nat \<Rightarrow> int \<Rightarrow> vec3 \<times> int" where
  "peony_dir i a = randomOnSphere a"

definition ring_dir :: "nat \<Rightarrow> int \<Rightarrow> vec3 \<times> int" where
  "ring_dir i a =
     (let radius = 1;
          angle = (real i / 128) * pi * 2;
          (r, a1) = mulberry32 a
      in (Vector3 (cos angle * radius) ((r - 0.5) * 0.2) (sin angle * radius), a1))"

definition willow_dir :: "nat \<Rightarrow> int \<Rightarrow> vec3 \<times> int" where
  "willow_dir i a =
     (let (dir, a1) = randomOnSphere a;
          dir1 = Vector3 (vx dir) (\<bar>vy dir\<bar> * 0.6 + 0.1) (vz dir);
          (r, a2) = mulberry32 a1
      in (multiplyScalar dir1 (0.6 + r * 0.4), a2))"

definition palm_dir :: "nat \<Rightarrow> int \<Rightarrow> vec3 \<times> int" where
  "palm_dir i a =
     (let (dir, a1) = randomOnSphere a;
          dir1 = Vector3 (vx dir * 1.4) \<bar>vy dir\<bar> (vz dir * 1.4)
      in (normalize_vec dir1, a1))"

definition crossette_axes :: "vec3 list" where
  "crossette_axes = [Vector3 1 0 0, Vector3 0 1 0, Vector3 0 0 1]"

definition crossette_dir :: "nat \<Rightarrow> int \<Rightarrow> vec3 \<times> int" where
  "crossette_dir i a =
     (let axis = crossette_axes ! (i mod length crossette_axes);
          angle = (real i / 128) * pi * 2
      in (applyAxisAngle axis up angle, a))"

definition comet_dir :: "nat \<Rightarrow> int \<Rightarrow> vec3 \<times> int" where
  "comet_dir i a =
     (let (dir, a1) = randomOnSphere a;
          dir1 = Vector3 (vx dir) \<bar>vy dir\<bar> (vz dir)
      in (normalize_vec dir1, a1))"

fun shell_dir :: "ShellType \<Rightarrow> nat \<Rightarrow> int \<Rightarrow> vec3 \<times> int" where
  "shell_dir Peony = peony_dir"
| "shell_dir Ring = ring_dir"
| "shell_dir Willow = willow_dir"
| "shell_dir Palm = palm_dir"
| "shell_dir Crossette = crossette_dir"
| "shell_dir Comet = comet_dir"

definition burstDirections :: "ShellType \<Rightarrow> int \<Rightarrow> vec3 list \<times> int" where
  "burstDirections ty a = gen_loop (shell_dir ty) 0 128 a"

text \<open>The engine's method of the same name normalizes every vector of the table's output.\<close>

definition engine_burstDirections :: "ShellType \<Rightarrow> int \<Rightarrow> vec3 list \<times> int" where
  "engine_burstDirections ty a =
     (let (ds, a1) = burstDirections ty a in (map normalize_vec ds, a1))"

text \<open>
  The willow generator as it would be without the magnitude jitter: the random number is
  still drawn, the vector is not scaled. It is compared with \<open>willow_dir\<close> below.
\<close>

definition willow_dir_unscaled :: "nat \<Rightarrow> int \<Rightarrow> vec3 \<times> int" where
  "willow_dir_unscaled i a =
     (let (dir, a1) = randomOnSphere a;
          dir1 = Vector3 (vx dir) (\<bar>vy dir\<bar> * 0.6 + 0.1) (vz dir);
          (r, a2) = mulberry32 a1
      in (dir1, a2))"

section \<open>Palette sampler\<close>

fun pick_loop :: "real \<Rightarrow> real \<Rightarrow> PaletteColor list \<Rightarrow> PaletteColor option" where
  "pick_loop r accum [] = None"
| "pick_loop r accum (c # cs) =
     (let accum1 = accum + pc_weight c
      in if r \<le> accum1 then Some c else pick_loop r accum1 cs)"

text \<open>
  \<^verbatim>\<open>pickPaletteColor\<close> reads the palette from the store on every call; the palette is the
  first argument. \<open>None\<close> is \<^verbatim>\<open>undefined\<close>, what \<^verbatim>\<open>palette[palette.length - 1]\<close> is
  for the empty palette.
\<close>

definition pickPaletteColor :: "PaletteColor list \<Rightarrow> int \<Rightarrow> PaletteColor option \<times> int" where
  "pickPaletteColor palette a =
     (let total = foldl (\<lambda>sum c. sum + pc_weight c) 0 palette;
          (u, a1) = mulberry32 a;
          r = u * total
      in (case pick_loop r 0 palette of
            Some c \<Rightarrow> (Some c, a1)
          | None \<Rightarrow> (if palette = [] then None else Some (last palette), a1)))"

section \<open>Bursts and the particle pool\<close>

text \<open>
  A burst is an object that both \<^verbatim>\<open>bursts\<close> and \<^verbatim>\<open>burstMap\<close> refer to. The field
  \<open>ref\<close> is the object's identity: \<^verbatim>\<open>burstMap\<close> maps an id to the identity of the burst
  stored under it, and a change made through the map is made to the burst of that
  identity in \<^verbatim>\<open>bursts\<close>. \<open>particleCount\<close> is \<^verbatim>\<open>Math.floor(shellParams.particles)\<close>.
\<close>

record Burst =
  ref :: nat
  burst_id :: real
  shellType :: ShellType
  position :: vec3
  velocity :: vec3
  exploded :: bool
  fuseTime :: real
  age :: real
  particleCount :: int
  color :: "PaletteColor option"
  glow :: real
  sparkleChance :: real
  fragmentCount :: real
  indices :: "nat list"
  trailAge :: real
  launchTime :: real
  reduceMotion :: bool

text \<open>The four floats of a slot in \<^verbatim>\<open>extras\<close>: life, age, glow, size.\<close>

datatype extra = Extra (life: real) (p_age: real) (p_glow: real) (p_size: real)

text \<open>
  The typed arrays are lists with one entry per slot (three floats of \<^verbatim>\<open>positions\<close>
  are one \<open>vec3\<close>); a write outside a typed array is ignored, as a list update is.
  \<open>perfCalls\<close> counts the calls of \<^verbatim>\<open>performance.now()\<close>, whose values are the
  function \<open>perf\<close> that the operations take.
\<close>

record Engine =
  positions :: "vec3 list"
  velocities :: "vec3 list"
  colors :: "vec3 list"
  extras :: "extra list"
  owners :: "int list"
  activeIndices :: "nat list"
  freeIndices :: "nat list"
  bursts :: "Burst list"
  burstMap :: "real \<Rightarrow> nat option"
  nextRef :: nat
  nextBurstTime :: real
  rand :: int
  elapsed :: real
  frameCount :: nat
  fpsAccumulator :: real
  perfCalls :: nat

text \<open>
  A thrown \<^verbatim>\<open>TypeError\<close> (reading a property of \<^verbatim>\<open>undefined\<close>) is the error of the
  model. It carries the engine as the throw leaves it: what was changed before the throw
  stays changed. A function that can throw returns \<open>error + Engine\<close>.
\<close>

datatype error = TypeError Engine

definition MAX_PARTICLES :: nat where
  "MAX_PARTICLES = 24000"

definition ToInt32 :: "real \<Rightarrow> int" where
  \<comment> \<open>the conversion of a store into an \<^verbatim>\<open>Int32Array\<close>: truncate, then wrap to 32 bits\<close>
  "ToInt32 x = sint (word_of_int (if 0 \<le> x then \<lfloor>x\<rfloor> else \<lceil>x\<rceil>) :: 32 word)"

definition new_engine :: "int \<Rightarrow> Engine" where
  "new_engine sd =
     \<lparr>positions = replicate MAX_PARTICLES (Vector3 0 0 0),
      velocities = replicate MAX_PARTICLES (Vector3 0 0 0),
      colors = replicate MAX_PARTICLES (Vector3 0 0 0),
      extras = replicate MAX_PARTICLES (Extra 0 0 0 0),
      owners = replicate MAX_PARTICLES (- 1),
      activeIndices = [],
      freeIndices = [0..<MAX_PARTICLES],
      bursts = [],
      burstMap = (\<lambda>k. None),
      nextRef = 0,
      nextBurstTime = 0,
      rand = sd,
      elapsed = 0,
      frameCount = 0,
      fpsAccumulator = 0,
      perfCalls = 0\<rparr>"

definition allocateParticle :: "Engine \<Rightarrow> nat option \<times> Engine" where
  "allocateParticle e =
     (if freeIndices e = [] then (None, e)
      else (Some (last (freeIndices e)), e\<lparr>freeIndices := butlast (freeIndices e)\<rparr>))"

definition releaseParticle :: "nat \<Rightarrow> Engine \<Rightarrow> Engine" where
  "releaseParticle index e =
     (let ownerId = owners e ! index;
          e1 = (if ownerId \<noteq> - 1 then
                  (case burstMap e (real_of_int ownerId) of
                     None \<Rightarrow> e
                   | Some r \<Rightarrow>
                       e\<lparr>bursts := map (\<lambda>b. if ref b = r
                                             then b\<lparr>indices := remove1 index (indices b)\<rparr>
                                             else b) (bursts e)\<rparr>)
                else e)
      in e1\<lparr>owners := (owners e1)[index := - 1], freeIndices := freeIndices e1 @ [index]\<rparr>)"

definition setParticle ::
  "nat \<Rightarrow> vec3 \<Rightarrow> vec3 \<Rightarrow> vec3 \<Rightarrow> real \<Rightarrow> real \<Rightarrow> real \<Rightarrow> real \<Rightarrow> Engine \<Rightarrow> Engine" where
  "setParticle index pos vel col lifespan sz glw ownerId e =
     e\<lparr>positions := (positions e)[index := pos],
       velocities := (velocities e)[index := vel],
       colors := (colors e)[index := col],
       extras := (extras e)[index := Extra lifespan 0 glw sz],
       owners := (owners e)[index := ToInt32 ownerId],
       activeIndices := activeIndices e @ [index]\<rparr>"

text \<open>\<^verbatim>\<open>burst.indices.push(index)\<close> for the burst at place \<open>bi\<close> of \<^verbatim>\<open>bursts\<close>.\<close>

definition push_index :: "nat \<Rightarrow> nat \<Rightarrow> Engine \<Rightarrow> Engine" where
  "push_index bi index e =
     e\<lparr>bursts := (bursts e)[bi := (bursts e ! bi)\<lparr>indices := indices (bursts e ! bi) @ [index]\<rparr>]\<rparr>"

section \<open>Spawning\<close>

fun pick_type :: "real \<Rightarrow> ShellType list \<Rightarrow> real list \<Rightarrow> ShellType option" where
  "pick_type random (t # ts) (w # ws) =
     (let random1 = random - w in if random1 \<le> 0 then Some t else pick_type random1 ts ws)"
| "pick_type random ts ws = None"

fun validatePosition :: "Burst list \<Rightarrow> vec3 \<Rightarrow> real \<Rightarrow> bool" where
  "validatePosition [] pos md = True"
| "validatePosition (burst # bs) pos md =
     (if distanceTo (position burst) pos < md then False else validatePosition bs pos md)"

fun sample_loop :: "SpawnLayoutSettings \<Rightarrow> Burst list \<Rightarrow> nat \<Rightarrow> int \<Rightarrow> vec3 option \<times> int" where
  "sample_loop sl bs 0 a = (None, a)"
| "sample_loop sl bs (Suc n) a =
     (let (r1, a1) = mulberry32 a;
          angle = r1 * pi * 2;
          (r2, a2) = mulberry32 a1;
          radius = launchRadius sl * sqrt r2;
          x = cos angle * radius;
          z = sin angle * radius;
          (r3, a3) = mulberry32 a2;
          y = lerp (launchHeightMin sl) (launchHeightMax sl) r3;
          pos = Vector3 x y z
      in if validatePosition bs pos (poissonRadius sl) then (Some pos, a3)
         else sample_loop sl bs n a3)"

definition sampleLaunchPosition :: "SettingsState \<Rightarrow> Burst list \<Rightarrow> int \<Rightarrow> vec3 option \<times> int" where
  "sampleLaunchPosition cfg bs a = sample_loop (spawnLayout cfg) bs 8 a"

definition spawnBurst ::
  "SettingsState \<Rightarrow> (nat \<Rightarrow> real) \<Rightarrow> vec3 option \<Rightarrow> real option \<Rightarrow> Engine \<Rightarrow> bool \<times> Engine" where
  "spawnBurst cfg perf pos altitudeOverride e =
     (case filter (\<lambda>key. enabled (shellTypes cfg key)) shellTypeKeys of
        [] \<Rightarrow> (False, e)
      | first # others \<Rightarrow>
        (let enabledTypes = first # others;
             sp = shellParams cfg;
             sl = spawnLayout cfg;
             weights = map (\<lambda>key. weight (shellTypes cfg key)) enabledTypes;
             total = foldl (+) 0 weights;
             (r0, a0) = mulberry32 (rand e);
             ty = (case pick_type (r0 * total) enabledTypes weights of
                     Some t \<Rightarrow> t | None \<Rightarrow> first);
             (spawnPos, a1) = (case pos of
                                 Some p \<Rightarrow> (Some p, a0)
                               | None \<Rightarrow> sampleLaunchPosition cfg (bursts e) a0)
         in case spawnPos of
              None \<Rightarrow> (False, e\<lparr>rand := a1\<rparr>)
            | Some spos \<Rightarrow>
              (let (r2, a2) = mulberry32 a1;
                   fuseDelay = sp_fuseDelay sp + r2 * 0.4 - 0.2;
                   (targetAltitude, a3) =
                     (case altitudeOverride of
                        Some h \<Rightarrow> (h, a2)
                      | None \<Rightarrow> (let (r3, a') = mulberry32 a2
                                 in (lerp (targetAltitudeMin sl) (targetAltitudeMax sl) r3, a')));
                   vertical = targetAltitude - vy spos;
                   (r4, a4) = mulberry32 a3;
                   (r5, a5) = mulberry32 a4;
                   vel = Vector3 ((r4 - 0.5) * lateralSpread sl)
                                 (sp_velocity sp + vertical * 0.3)
                                 ((r5 - 0.5) * lateralSpread sl);
                   (col, a6) = pickPaletteColor (palettes cfg) a5;
                   (r7, a7) = mulberry32 a6;
                   burst = \<lparr>ref = nextRef e,
                            burst_id = perf (perfCalls e) + real_of_int \<lfloor>r7 * 100000\<rfloor>,
                            shellType = ty,
                            position = spos,
                            velocity = vel,
                            exploded = False,
                            fuseTime = fuseDelay,
                            age = 0,
                            particleCount = \<lfloor>sp_particles sp\<rfloor>,
                            color = col,
                            glow = sp_glow sp,
                            sparkleChance = sp_sparkleChance sp,
                            fragmentCount = sp_fragmentCount sp,
                            indices = [],
                            trailAge = 0,
                            launchTime = elapsed e,
                            reduceMotion = sch_reduceMotion (scheduler cfg)\<rparr>;
                   (r8, a8) = mulberry32 a7;
                   stagger = lerp (staggerMin (scheduler cfg)) (staggerMax (scheduler cfg)) r8;
                   rate = max 0.2 (globalRate (scheduler cfg))
               in (True,
                   e\<lparr>bursts := bursts e @ [burst],
                     burstMap := (burstMap e)(burst_id burst \<mapsto> ref burst),
                     nextRef := Suc (nextRef e),
                     perfCalls := Suc (perfCalls e),
                     rand := a8,
                     nextBurstTime := elapsed e + stagger / rate\<rparr>))))"

section \<open>Interactive sparsity correction\<close>

fun enforce_loop :: "real \<Rightarrow> Burst list \<Rightarrow> vec3 \<Rightarrow> vec3" where
  "enforce_loop md [] result = result"
| "enforce_loop md (burst # bs) result =
     (let distance = distanceTo (position burst) result
      in if distance < md then
           (let direction0 = normalize_vec (vsub result (position burst));
                direction = (if \<not> Number_isFinite (vlength direction0)
                             then Vector3 1 0 0 else direction0)
            in enforce_loop md bs (addScaledVector (position burst) direction md))
         else enforce_loop md bs result)"

definition enforceSparsity :: "SettingsState \<Rightarrow> Burst list \<Rightarrow> vec3 \<Rightarrow> vec3" where
  "enforceSparsity cfg bs pos = enforce_loop (minDistance (spawnLayout cfg)) bs pos"

text \<open>
  \<^verbatim>\<open>triggerBurstAtScreen\<close> after the ray cast: \<open>intersection\<close> is the point where the ray
  of the pointer meets the target plane.
\<close>

definition triggerBurstAtScreen ::
  "SettingsState \<Rightarrow> (nat \<Rightarrow> real) \<Rightarrow> vec3 \<Rightarrow> Engine \<Rightarrow> Engine" where
  "triggerBurstAtScreen cfg perf intersection e =
     (let targetPlaneY = lerp (targetAltitudeMin (spawnLayout cfg))
                              (targetAltitudeMax (spawnLayout cfg))
                              (burstAltitudeMultiplier (interaction cfg));
          sparse = enforceSparsity cfg (bursts e) intersection
      in snd (spawnBurst cfg perf (Some sparse) (Some targetPlaneY) e))"

section \<open>Explosion\<close>

text \<open>The velocity of a crossette fragment, from the velocity of its primary particle.\<close>

definition fragment_velocity :: "vec3 \<Rightarrow> int \<Rightarrow> vec3 \<times> int" where
  "fragment_velocity vel a =
     (let (r1, a1) = mulberry32 a;
          (r2, a2) = mulberry32 a1;
          (r3, a3) = mulberry32 a2;
          offset = Vector3 ((r1 - 0.5) * 40) ((r2 - 0.2) * 30) ((r3 - 0.5) * 40)
      in (vadd (multiplyScalar vel 0.6) (multiplyScalar offset 0.05), a3))"

text \<open>
  The crossette fragments of one primary particle: the loop
  \<^verbatim>\<open>for (let f = 0; f < burst.fragmentCount; f++)\<close>, \<open>n\<close> iterations left, which
  breaks when the pool is exhausted.
\<close>

fun fragment_loop ::
  "nat \<Rightarrow> nat \<Rightarrow> vec3 \<Rightarrow> vec3 \<Rightarrow> real \<Rightarrow> real \<Rightarrow> real \<Rightarrow> Engine \<Rightarrow> Engine" where
  "fragment_loop 0 bi vel col lifespan sz glowMultiplier e = e"
| "fragment_loop (Suc n) bi vel col lifespan sz glowMultiplier e =
     (case allocateParticle e of
        (None, e1) \<Rightarrow> e1
      | (Some fragIndex, e1) \<Rightarrow>
        (let burst = bursts e1 ! bi;
             (fragVelocity, a3) = fragment_velocity vel (rand e1);
             fragLife = lifespan * 0.6;
             fragSize = sz * 0.7;
             e2 = setParticle fragIndex (position burst) fragVelocity (multiplyScalar col 1.1)
                    fragLife fragSize (glowMultiplier * 1.1) (burst_id burst) (e1\<lparr>rand := a3\<rparr>)
         in fragment_loop n bi vel col lifespan sz glowMultiplier (push_index bi fragIndex e2)))"

text \<open>
  The random draws of one primary particle, in the order of the source: spread, speed,
  life, size and the three colour channels. The result is the particle's velocity,
  colour, life and size.
\<close>

definition particle_draw ::
  "SettingsState \<Rightarrow> vec3 \<Rightarrow> vec3 \<Rightarrow> int \<Rightarrow> (vec3 \<times> vec3 \<times> real \<times> real) \<times> int" where
  "particle_draw cfg baseColor dir a =
     (let sp = shellParams cfg;
          ph = physics cfg;
          colorVariance = 0.15;
          (r1, a1) = mulberry32 a;
          spread = sp_spread sp * (0.7 + r1 * 0.6);
          (r2, a2) = mulberry32 a1;
          speed = sp_velocity sp * 0.6 + r2 * 40;
          v0 = multiplyScalar dir (speed * spread);
          vel = Vector3 (vx v0 + vx (wind ph) * 0.1)
                        (vy v0 + \<bar>vy (wind ph)\<bar> * 0.1)
                        (vz v0 + vz (wind ph) * 0.1);
          (r3, a3) = mulberry32 a2;
          lifespan = sp_sparkLifetime sp * (0.8 + r3 * 0.6);
          (r4, a4) = mulberry32 a3;
          sz = 16 * particleSize (postFx cfg) * (0.7 + r4 * 0.6);
          (r5, a5) = mulberry32 a4;
          (r6, a6) = mulberry32 a5;
          (r7, a7) = mulberry32 a6;
          col = Vector3 (clamp (vx baseColor + (r5 - 0.5) * colorVariance) 0 1.5)
                        (clamp (vy baseColor + (r6 - 0.5) * colorVariance) 0 1.5)
                        (clamp (vz baseColor + (r7 - 0.5) * colorVariance) 0 1.5)
      in ((vel, col, lifespan, sz), a7))"

text \<open>One iteration of the loop over the primary particles, for the particle index \<open>i\<close>.\<close>

definition explode_particle ::
  "SettingsState \<Rightarrow> nat \<Rightarrow> vec3 \<Rightarrow> real \<Rightarrow> vec3 list \<Rightarrow> nat \<Rightarrow> Engine \<Rightarrow> Engine" where
  "explode_particle cfg bi baseColor glowMultiplier directionSet i e =
     (let burst = bursts e ! bi;
          dir = directionSet ! (i mod length directionSet);
          ((vel, col, lifespan, sz), a7) = particle_draw cfg baseColor dir (rand e)
      in case allocateParticle (e\<lparr>rand := a7\<rparr>) of
           (None, e1) \<Rightarrow> e1
         | (Some index, e1) \<Rightarrow>
           (let e2 = push_index bi index
                       (setParticle index (position burst) vel col lifespan sz glowMultiplier
                          (burst_id burst) e1)
            in if shellType burst = Crossette then
                 (let (r8, a8) = mulberry32 (rand e2);
                      e3 = e2\<lparr>rand := a8\<rparr>
                  in if r8 < 0.25
                     then fragment_loop (nat \<lceil>fragmentCount burst\<rceil>) bi vel col lifespan sz
                            glowMultiplier e3
                     else e3)
               else e2))"

fun explode_loop ::
  "SettingsState \<Rightarrow> nat \<Rightarrow> vec3 \<Rightarrow> real \<Rightarrow> vec3 list \<Rightarrow> nat \<Rightarrow> nat \<Rightarrow> Engine \<Rightarrow> Engine" where
  "explode_loop cfg bi baseColor glowMultiplier directionSet i 0 e = e"
| "explode_loop cfg bi baseColor glowMultiplier directionSet i (Suc n) e =
     explode_loop cfg bi baseColor glowMultiplier directionSet (Suc i) n
       (explode_particle cfg bi baseColor glowMultiplier directionSet i e)"

text \<open>
  The number of primary particles of an explosion:
  \<^verbatim>\<open>Math.min(Math.floor(burst.particleCount * (burst.reduceMotion ? 0.6 : 1)), MAX_PARTICLES / 4)\<close>.
\<close>

definition explosion_count :: "Burst \<Rightarrow> int" where
  "explosion_count burst =
     min \<lfloor>real_of_int (particleCount burst) * (if reduceMotion burst then 0.6 else 1)\<rfloor>
         (int (MAX_PARTICLES div 4))"

definition explodeBurst :: "SettingsState \<Rightarrow> nat \<Rightarrow> Engine \<Rightarrow> error + Engine" where
  "explodeBurst cfg bi e =
     (let burst = bursts e ! bi
      in case color burst of
           None \<Rightarrow> Inl (TypeError e)
         | Some pc \<Rightarrow>
           (let baseColor = pc_color pc;
                glowMultiplier = pc_glow pc * sp_glow (shellParams cfg) * glowGlobal (postFx cfg);
                (directionSet, a1) = engine_burstDirections (shellType burst) (rand e);
                e1 = explode_loop cfg bi baseColor glowMultiplier directionSet 0
                       (nat (explosion_count burst)) (e\<lparr>rand := a1\<rparr>)
            in Inr (e1\<lparr>bursts := (bursts e1)[bi := (bursts e1 ! bi)\<lparr>exploded := True\<rparr>]\<rparr>)))"

section \<open>Ascent of a burst\<close>

text \<open>The projectile step of an ascending burst: its age, velocity and position.\<close>

definition ascend :: "SettingsState \<Rightarrow> real \<Rightarrow> Burst \<Rightarrow> Burst" where
  "ascend cfg delta burst =
     (let ph = physics cfg;
          tv0 = velocity burst;
          tv1 = Vector3 (vx tv0 + vx (wind ph) * delta)
                        (vy tv0 + ph_gravity ph * delta)
                        (vz tv0 + vz (wind ph) * delta);
          tv = multiplyScalar tv1 (1 - ph_drag ph * delta)
      in burst\<lparr>age := age burst + delta,
               position := addScaledVector (position burst) tv delta,
               velocity := tv\<rparr>)"

definition trail_velocity :: "int \<Rightarrow> vec3 \<times> int" where
  "trail_velocity a =
     (let (r1, a2) = mulberry32 a;
          (r2, a3) = mulberry32 a2;
          (r3, a4) = mulberry32 a3
      in (Vector3 ((r1 - 0.5) * 12) (- 10 - r2 * 15) ((r3 - 0.5) * 12), a4))"

text \<open>
  The ascent trail of the burst at place \<open>bi\<close>, which is \<open>burst\<close>. The slot is allocated
  before the colour of the burst is read, and reading it throws when the burst has no
  colour.
\<close>

definition emit_trail :: "SettingsState \<Rightarrow> nat \<Rightarrow> Burst \<Rightarrow> Engine \<Rightarrow> error + Engine" where
  "emit_trail cfg bi burst e =
     (let sp = shellParams cfg
      in if reduceMotion burst then Inr e
         else
           (let (r, a1) = mulberry32 (rand e);
                e2 = e\<lparr>rand := a1\<rparr>
            in if r < sp_sparkleChance sp then
                 (case allocateParticle e2 of
                    (None, e3) \<Rightarrow> Inr e3
                  | (Some trailIndex, e3) \<Rightarrow>
                    (case color burst of
                       None \<Rightarrow> Inl (TypeError e3)
                     | Some pc \<Rightarrow>
                       (let tempColor = multiplyScalar (pc_color pc) 0.8;
                            (vel, a4) = trail_velocity (rand e3);
                            persistence = lerp 0.2 1.4 (sp_trailPersistence sp);
                            trailLife = 0.4 + sp_trailLength sp * 0.5;
                            trailSize = 12 * lerp 0.5 1.5 (sp_trailLength sp)
                        in Inr (push_index bi trailIndex
                                  (setParticle trailIndex (position burst) vel tempColor
                                     (trailLife * persistence) trailSize (glow burst * 0.6)
                                     (burst_id burst) (e3\<lparr>rand := a4\<rparr>))))))
               else Inr e2))"

definition updateBurst :: "SettingsState \<Rightarrow> nat \<Rightarrow> real \<Rightarrow> Engine \<Rightarrow> error + Engine" where
  "updateBurst cfg bi delta e =
     (let burst = bursts e ! bi
      in if exploded burst then Inr e
         else
           (let burst1 = ascend cfg delta burst;
                e1 = e\<lparr>bursts := (bursts e)[bi := burst1]\<rparr>
            in if age burst1 \<ge> fuseTime burst1
                  \<or> vy (position burst1) \<ge> targetAltitudeMax (spawnLayout cfg)
               then explodeBurst cfg bi e1
               else emit_trail cfg bi burst1 e1))"

section \<open>Physics integrator\<close>

definition effective_drag :: "SettingsState \<Rightarrow> real" where
  "effective_drag cfg = max 0 (ph_drag (physics cfg) + sp_drag (shellParams cfg) * 0.1)"

definition effective_turbulence :: "SettingsState \<Rightarrow> real" where
  "effective_turbulence cfg =
     turbulenceStrength (physics cfg) * (0.5 + sp_turbulence (shellParams cfg))"

definition effective_gravity :: "SettingsState \<Rightarrow> real" where
  "effective_gravity cfg = ph_gravity (physics cfg) + sp_gravity (shellParams cfg) * 0.05"

definition splice1 :: "nat \<Rightarrow> 'a list \<Rightarrow> 'a list" where
  \<comment> \<open>\<^verbatim>\<open>xs.splice(i, 1)\<close>\<close>
  "splice1 i xs = take i xs @ drop (Suc i) xs"

text \<open>The body of the loop of \<^verbatim>\<open>updateParticles\<close> for the place \<open>i\<close> of \<^verbatim>\<open>activeIndices\<close>.\<close>

definition particle_step :: "SettingsState \<Rightarrow> real \<Rightarrow> nat \<Rightarrow> Engine \<Rightarrow> Engine" where
  "particle_step cfg delta i e =
     (let ph = physics cfg;
          drag = effective_drag cfg;
          turbulence = effective_turbulence cfg;
          gravity = effective_gravity cfg;
          index = activeIndices e ! i;
          lifespan = life (extras e ! index);
          age0 = p_age (extras e ! index);
          glw = p_glow (extras e ! index);
          sz = p_size (extras e ! index)
      in if lifespan \<le> 0 then
           releaseParticle index (e\<lparr>activeIndices := splice1 i (activeIndices e)\<rparr>)
         else
           (let v0 = velocities e ! index;
                v1 = Vector3 (vx v0 + vx (wind ph) * delta)
                             (vy v0 + (gravity * delta
                                       + sin ((age0 + elapsed e) * turbulenceFrequency ph)
                                         * turbulence * delta))
                             (vz v0 + vz (wind ph) * delta);
                v = multiplyScalar v1 (max 0 (1 - drag * delta));
                p0 = positions e ! index;
                p1 = Vector3 (vx p0 + vx v * delta) (vy p0 + vy v * delta) (vz p0 + vz v * delta);
                newAge = age0 + delta;
                e1 = e\<lparr>velocities := (velocities e)[index := v],
                       positions := (positions e)[index := p1],
                       extras := (extras e)[index := Extra lifespan newAge glw sz]\<rparr>;
                e2 = (if vy p1 < 0 then
                        (if groundCollision ph = Fade
                         then e1\<lparr>extras := (extras e1)[index := Extra (min 0.2 lifespan) newAge glw sz]\<rparr>
                         else e1\<lparr>positions := (positions e1)[index := Vector3 (vx p1) 0 (vz p1)],
                                 velocities := (velocities e1)[index := Vector3 (vx v) (\<bar>vy v\<bar> * 0.4) (vz v)]\<rparr>)
                      else e1)
            in if newAge \<ge> lifespan
               then releaseParticle index (e2\<lparr>activeIndices := splice1 i (activeIndices e2)\<rparr>)
               else e2))"

fun particles_loop :: "SettingsState \<Rightarrow> real \<Rightarrow> nat \<Rightarrow> Engine \<Rightarrow> Engine" where
  "particles_loop cfg delta 0 e = e"
| "particles_loop cfg delta (Suc i) e = particles_loop cfg delta i (particle_step cfg delta i e)"

definition updateParticles :: "SettingsState \<Rightarrow> real \<Rightarrow> Engine \<Rightarrow> Engine" where
  "updateParticles cfg delta e = particles_loop cfg delta (length (activeIndices e)) e"

text \<open>
  The update of section 4.7 of the specification, written from its words, for one
  particle with velocity \<open>v\<close>, position \<open>p\<close> and age \<open>a\<close>: the result is the new
  velocity, position and age.
\<close>

definition spec_integrate ::
  "real \<Rightarrow> real \<Rightarrow> vec3 \<Rightarrow> real \<Rightarrow> real \<Rightarrow> real \<Rightarrow> real \<Rightarrow> vec3 \<times> vec3 \<times> real
     \<Rightarrow> vec3 \<times> vec3 \<times> real" where
  "spec_integrate gravity drag wnd turbFrequency turbStrength simClock dt s =
     (case s of (v, p, a) \<Rightarrow>
        (let v1 = Vector3 (vx v + vx wnd * dt)
                          (vy v + (gravity * dt
                                   + sin ((a + simClock) * turbFrequency) * turbStrength * dt))
                          (vz v + vz wnd * dt);
             v2 = multiplyScalar v1 (max 0 (1 - drag * dt))
         in (v2, Vector3 (vx p + vx v2 * dt) (vy p + vy v2 * dt) (vz p + vz v2 * dt), a + dt)))"

section \<open>Scheduler and tick\<close>

definition visible :: "Burst \<Rightarrow> bool" where
  "visible b = (\<not> exploded b \<or> length (indices b) > 0)"

fun spawn_times :: "SettingsState \<Rightarrow> (nat \<Rightarrow> real) \<Rightarrow> nat \<Rightarrow> Engine \<Rightarrow> Engine" where
  "spawn_times cfg perf 0 e = e"
| "spawn_times cfg perf (Suc n) e =
     spawn_times cfg perf n (snd (spawnBurst cfg perf None None e))"

text \<open>
  The loop \<^verbatim>\<open>for (let i = visibleBursts.length; i < scheduler.minSimultaneous; i++)\<close>
  runs once for each integer from the count up to, and not including, the bound.
\<close>

definition maintainScheduler :: "SettingsState \<Rightarrow> (nat \<Rightarrow> real) \<Rightarrow> Engine \<Rightarrow> Engine" where
  "maintainScheduler cfg perf e =
     (let sch = scheduler cfg;
          visibleBursts = filter visible (bursts e);
          n = length visibleBursts;
          e1 = (if real n < minSimultaneous sch
                then spawn_times cfg perf (nat \<lceil>minSimultaneous sch - real n\<rceil>) e
                else e)
      in if \<not> playing sch then e1
         else if real n < maxSimultaneous sch \<and> elapsed e1 \<ge> nextBurstTime e1
              then snd (spawnBurst cfg perf None None e1)
              else e1)"

text \<open>The loop of \<^verbatim>\<open>animate\<close> over the bursts, from the last place down; \<open>i\<close> places left.\<close>

fun burst_loop :: "SettingsState \<Rightarrow> real \<Rightarrow> nat \<Rightarrow> Engine \<Rightarrow> error + Engine" where
  "burst_loop cfg delta 0 e = Inr e"
| "burst_loop cfg delta (Suc i) e =
     (case updateBurst cfg i delta e of
        Inl err \<Rightarrow> Inl err
      | Inr e1 \<Rightarrow>
        (let burst = bursts e1 ! i
         in burst_loop cfg delta i
              (if exploded burst \<and> length (indices burst) = 0
               then e1\<lparr>burstMap := (burstMap e1)(burst_id burst := None),
                       bursts := splice1 i (bursts e1)\<rparr>
               else e1)))"

text \<open>
  One tick. \<open>clockDelta\<close> is what \<^verbatim>\<open>this.clock.getDelta()\<close> returns. Rendering and the
  report of the frame rate to the store are outside the model.
\<close>

definition animate :: "SettingsState \<Rightarrow> (nat \<Rightarrow> real) \<Rightarrow> real \<Rightarrow> Engine \<Rightarrow> error + Engine" where
  "animate cfg perf clockDelta e =
     (let delta = min 0.05 clockDelta;
          e0 = e\<lparr>elapsed := elapsed e + delta,
                 frameCount := Suc (frameCount e),
                 fpsAccumulator := fpsAccumulator e + delta\<rparr>;
          e1 = (if fpsAccumulator e0 \<ge> 0.5 then e0\<lparr>frameCount := 0, fpsAccumulator := 0\<rparr> else e0);
          e2 = maintainScheduler cfg perf e1
      in case burst_loop cfg delta (length (bursts e2)) e2 of
           Inl err \<Rightarrow> Inl err
         | Inr e3 \<Rightarrow> Inr (updateParticles cfg delta e3))"


section \<open>The animation loop and disposal\<close>

text \<open>
  The page around the engine: \<open>rafQueue\<close> holds the handles of the animation-frame
  requests that are pending (each is for \<^verbatim>\<open>this.animate\<close>), \<open>listeners\<close> the event types
  on which a handler of the engine is attached. \<^verbatim>\<open>requestAnimationFrame\<close> returns a new
  handle; \<^verbatim>\<open>cancelAnimationFrame\<close> removes the request of the handle it is given, and
  does nothing when it is given \<^verbatim>\<open>undefined\<close>.
\<close>

record Page =
  engine :: Engine
  rafQueue :: "nat list"
  nextHandle :: nat
  listeners :: "string list"
  seedSubscribed :: bool

definition requestAnimationFrame :: "Page \<Rightarrow> nat \<times> Page" where
  "requestAnimationFrame pg =
     (nextHandle pg, pg\<lparr>rafQueue := rafQueue pg @ [nextHandle pg], nextHandle := Suc (nextHandle pg)\<rparr>)"

definition cancelAnimationFrame :: "nat option \<Rightarrow> Page \<Rightarrow> Page" where
  "cancelAnimationFrame handle pg =
     (case handle of None \<Rightarrow> pg | Some h \<Rightarrow> pg\<lparr>rafQueue := removeAll h (rafQueue pg)\<rparr>)"

text \<open>
  \<^verbatim>\<open>dispose\<close> reads \<^verbatim>\<open>this.animationFrameId\<close>. The class neither declares nor assigns this
  property (\<^verbatim>\<open>animate\<close> drops the handle that \<^verbatim>\<open>requestAnimationFrame\<close> returns), so
  the property is \<^verbatim>\<open>undefined\<close>.
\<close>

definition animationFrameId :: "Page \<Rightarrow> nat option" where
  "animationFrameId pg = None"

text \<open>\<^verbatim>\<open>animate\<close> on the page: the tick, then the request of the next frame.\<close>

definition page_animate :: "SettingsState \<Rightarrow> (nat \<Rightarrow> real) \<Rightarrow> real \<Rightarrow> Page \<Rightarrow> error + Page" where
  "page_animate cfg perf clockDelta pg =
     (case animate cfg perf clockDelta (engine pg) of
        Inl err \<Rightarrow> Inl err
      | Inr e \<Rightarrow> Inr (snd (requestAnimationFrame (pg\<lparr>engine := e\<rparr>))))"

definition construct :: "SettingsState \<Rightarrow> (nat \<Rightarrow> real) \<Rightarrow> real \<Rightarrow> error + Page" where
  "construct cfg perf clockDelta =
     page_animate cfg perf clockDelta
       \<lparr>engine = new_engine (seed (scheduler cfg)),
        rafQueue = [],
        nextHandle = 0,
        listeners = [''pointerdown'', ''pointermove'', ''pointerup''],
        seedSubscribed = True\<rparr>"

text \<open>The browser runs the callback of the oldest pending request, if there is one.\<close>

definition run_frame :: "SettingsState \<Rightarrow> (nat \<Rightarrow> real) \<Rightarrow> real \<Rightarrow> Page \<Rightarrow> error + Page" where
  "run_frame cfg perf clockDelta pg =
     (case rafQueue pg of
        [] \<Rightarrow> Inr pg
      | h # rest \<Rightarrow> page_animate cfg perf clockDelta (pg\<lparr>rafQueue := rest\<rparr>))"

definition dispose :: "Page \<Rightarrow> Page" where
  "dispose pg =
     (cancelAnimationFrame (animationFrameId pg) pg)\<lparr>listeners := [], seedSubscribed := False\<rparr>"

section \<open>Example configurations and states\<close>

text \<open>
  The default settings of the store. The ids of the palette colours stand for the random
  ids that the store generates; the colours are the bytes of the hex strings over 255.
\<close>

definition default_settings :: SettingsState where
  "default_settings =
     \<lparr>scheduler = \<lparr>playing = True, minSimultaneous = 3, maxSimultaneous = 6, staggerMin = 0.5,
                   staggerMax = 1.4, globalRate = 1, seed = 1337, sch_reduceMotion = False\<rparr>,
      interaction = \<lparr>clickToBurst = True, burstAltitudeMultiplier = 1, followCursor = False\<rparr>,
      spawnLayout = \<lparr>launchRadius = 160, minDistance = 45, launchHeightMin = 0,
                     launchHeightMax = 60, targetAltitudeMin = 180, targetAltitudeMax = 320,
                     lateralSpread = 120, poissonRadius = 55\<rparr>,
      shellTypes = (\<lambda>t. case t of
                      Peony \<Rightarrow> \<lparr>enabled = True, weight = 0.28\<rparr>
                    | Ring \<Rightarrow> \<lparr>enabled = True, weight = 0.2\<rparr>
                    | Willow \<Rightarrow> \<lparr>enabled = True, weight = 0.16\<rparr>
                    | Palm \<Rightarrow> \<lparr>enabled = True, weight = 0.14\<rparr>
                    | Crossette \<Rightarrow> \<lparr>enabled = True, weight = 0.12\<rparr>
                    | Comet \<Rightarrow> \<lparr>enabled = True, weight = 0.1\<rparr>),
      shellParams = \<lparr>sp_particles = 260, sp_velocity = 190, sp_spread = 1, sp_fuseDelay = 1.1,
                     sp_trailLength = 1, sp_trailPersistence = 0.6, sp_sparkLifetime = 2.2,
                     sp_turbulence = 0.8, sp_drag = 0.2, sp_gravity = - 9.8, sp_glow = 3,
                     sp_fragmentCount = 4, sp_sparkleChance = 0.35\<rparr>,
      physics = \<lparr>ph_gravity = - 9.8, ph_drag = 0.22, wind = Vector3 4 0 0,
                 turbulenceStrength = 0.8, turbulenceFrequency = 0.45, groundCollision = Fade\<rparr>,
      postFx = \<lparr>glowGlobal = 3, particleSize = 1\<rparr>,
      palettes =
        [\<lparr>pc_id = ''c1'', pc_color = Vector3 (27 / 255) (56 / 255) (168 / 255),
          pc_weight = 0.3, pc_glow = 2.4\<rparr>,
         \<lparr>pc_id = ''c2'', pc_color = Vector3 (244 / 255) (197 / 255) (66 / 255),
          pc_weight = 0.25, pc_glow = 3\<rparr>,
         \<lparr>pc_id = ''c3'', pc_color = Vector3 (209 / 255) (213 / 255) 1,
          pc_weight = 0.2, pc_glow = 2.2\<rparr>,
         \<lparr>pc_id = ''c4'', pc_color = Vector3 (212 / 255) (91 / 255) 1,
          pc_weight = 0.15, pc_glow = 2.8\<rparr>,
         \<lparr>pc_id = ''c5'', pc_color = Vector3 (95 / 255) (215 / 255) 1,
          pc_weight = 0.1, pc_glow = 2.5\<rparr>]\<rparr>"

text \<open>The settings with every archetype disabled.\<close>

definition all_disabled :: SettingsState where
  "all_disabled =
     default_settings\<lparr>shellTypes := (\<lambda>t. \<lparr>enabled = False, weight = 0\<rparr>)\<rparr>"

text \<open>A burst that has just been launched from \<open>p\<close>, of the archetype \<open>ty\<close>.\<close>

definition launched :: "ShellType \<Rightarrow> vec3 \<Rightarrow> Burst" where
  "launched ty p =
     \<lparr>ref = 0, burst_id = 1234.5, shellType = ty, position = p, velocity = Vector3 0 190 0,
      exploded = False, fuseTime = 1.1, age = 0, particleCount = 1,
      color = Some \<lparr>pc_id = ''c1'', pc_color = Vector3 0.1 0.2 0.65, pc_weight = 0.3,
                    pc_glow = 2.4\<rparr>,
      glow = 3, sparkleChance = 0.35, fragmentCount = 1, indices = [], trailAge = 0,
      launchTime = 0, reduceMotion = False\<rparr>"

text \<open>
  The number of spawn attempts that the scheduler's floor makes in a tick: one for each
  integer from the count of visible bursts up to \<^verbatim>\<open>minSimultaneous\<close>.
\<close>

definition floor_attempts :: "SettingsState \<Rightarrow> Engine \<Rightarrow> nat" where
  "floor_attempts cfg e =
     (if real (length (filter visible (bursts e))) < minSimultaneous (scheduler cfg)
      then nat \<lceil>minSimultaneous (scheduler cfg) - real (length (filter visible (bursts e)))\<rceil>
      else 0)"

text \<open>
  What the calls of \<^verbatim>\<open>spawnBurst\<close> in the loop of the scheduler's floor return, one after
  the other (the scheduler itself drops these values).
\<close>

fun spawn_outcomes :: "SettingsState \<Rightarrow> (nat \<Rightarrow> real) \<Rightarrow> nat \<Rightarrow> Engine \<Rightarrow> bool list" where
  "spawn_outcomes cfg perf 0 e = []"
| "spawn_outcomes cfg perf (Suc n) e =
     fst (spawnBurst cfg perf None None e)
       # spawn_outcomes cfg perf n (snd (spawnBurst cfg perf None None e))"

text \<open>The default settings with a floor of one burst.\<close>

definition single_floor :: SettingsState where
  "single_floor = default_settings\<lparr>scheduler := (scheduler default_settings)\<lparr>minSimultaneous := 1\<rparr>\<rparr>"

text \<open>
  The engine in a first tick of 0.05 s, after one particle was allocated and written: at
  rest, at height 100, with a life of 2 s.
\<close>

definition one_spark :: Engine where
  "one_spark =
     (case allocateParticle ((new_engine 1337)\<lparr>elapsed := 0.05\<rparr>) of
        (Some index, e) \<Rightarrow>
          setParticle index (Vector3 0 100 0) (Vector3 0 0 0) (Vector3 1 1 1) 2 16 9 1234.5 e
      | (None, e) \<Rightarrow> e)"

text \<open>
  The same engine after a second particle was allocated and written, with a life of 0 s:
  it moves at 1 unit per second along x, at height 50.
\<close>

definition two_sparks :: Engine where
  "two_sparks =
     (case allocateParticle one_spark of
        (Some index, e) \<Rightarrow>
          setParticle index (Vector3 0 50 0) (Vector3 1 0 0) (Vector3 1 1 1) 0 16 9 1234.5 e
      | (None, e) \<Rightarrow> e)"

text \<open>
  The number of iterations of the fragment loop of one primary particle: none unless the
  burst is a crossette.
\<close>

definition fragments_per_particle :: "Burst \<Rightarrow> nat" where
  "fragments_per_particle burst =
     (if shellType burst = Crossette then nat \<lceil>fragmentCount burst\<rceil> else 0)"

text \<open>The default settings with one particle per shell and one fragment.\<close>

definition one_particle_shells :: SettingsState where
  "one_particle_shells =
     default_settings\<lparr>shellParams :=
       (shellParams default_settings)\<lparr>sp_particles := 1, sp_fragmentCount := 1\<rparr>\<rparr>"

text \<open>
  An engine with one crossette burst about to explode; the generator is in the state
  that the seed 1337 reaches after twelve draws.
\<close>

definition crossette_ready :: Engine where
  "crossette_ready =
     (new_engine 1337)\<lparr>bursts := [launched Crossette (Vector3 0 320 0)],
                         burstMap := (\<lambda>k. None)(1234.5 \<mapsto> 0),
                         nextRef := 1,
                         rand := 21978791093\<rparr>"

section \<open>Pool conservation\<close>



text \<open>
  An engine with two ascending bursts, whose ids \<open>1234.5\<close> and \<open>2345.5\<close> are sums of a
  fractional \<^verbatim>\<open>performance.now()\<close> and an integer.
\<close>

definition two_shells :: Engine where
  "two_shells =
     (new_engine 1337)\<lparr>bursts := [launched Peony (Vector3 0 320 0),
                                    (launched Peony (Vector3 80 300 0))\<lparr>ref := 1, burst_id := 2345.5\<rparr>],
                         burstMap := (\<lambda>k. None)(1234.5 \<mapsto> 0, 2345.5 \<mapsto> 1),
                         nextRef := 2\<rparr>"

text \<open>The default settings with sparks that expire at once.\<close>

definition no_lifetime :: SettingsState where
  "no_lifetime =
     default_settings\<lparr>shellParams := (shellParams default_settings)\<lparr>sp_sparkLifetime := 0\<rparr>\<rparr>"

section \<open>Properties of the generator, the vectors and the sampler\<close>

lemma unat32_unit_interval:
  "0 \<le> real (unat (w :: 32 word)) / 4294967296 \<and> real (unat w) / 4294967296 < 1"
proof -
  have "unat w < 4294967296"
    using unsigned_less [of w, where ?'a = nat] by simp
  then have "real (unat w) < real 4294967296"
    by (simp only: of_nat_less_iff)
  then have "real (unat w) < 4294967296"
    by (simp only: of_nat_numeral)
  moreover have "0 \<le> real (unat w)"
    by (rule of_nat_0_le_iff)
  ultimately show ?thesis
    by (simp only: divide_less_eq_1_pos zero_less_numeral zero_le_divide_iff) simp
qed

lemma mulberry32_range: "0 \<le> fst (mulberry32 a) \<and> fst (mulberry32 a) < 1"
  unfolding mulberry32_def Let_def fst_conv by (rule unat32_unit_interval)

lemma mulberry32_state:
  "0 \<le> a \<Longrightarrow> a + 0x6d2b79f5 < 2 ^ 53 \<Longrightarrow> snd (mulberry32 a) = a + 0x6d2b79f5"
  by (simp add: mulberry32_def double_of_int_def Let_def)

lemma vlength_nonneg: "0 \<le> vlength v"
  by (simp add: vlength_def)

lemma vlength_multiplyScalar: "vlength (multiplyScalar v s) = \<bar>s\<bar> * vlength v"
proof -
  have "vx v * s * (vx v * s) + vy v * s * (vy v * s) + vz v * s * (vz v * s)
        = (s * s) * (vx v * vx v + vy v * vy v + vz v * vz v)"
    by (simp add: algebra_simps)
  then show ?thesis
    by (simp add: vlength_def multiplyScalar_def real_sqrt_mult)
qed

lemma vlength_normalize: "vlength v \<noteq> 0 \<Longrightarrow> vlength (normalize_vec v) = 1"
  using vlength_nonneg [of v]
  by (simp add: normalize_vec_def divideScalar_def js_or_def vlength_multiplyScalar)

lemma normalize_unit: "vlength v = 1 \<Longrightarrow> normalize_vec v = v"
  by (cases v) (simp add: normalize_vec_def divideScalar_def js_or_def multiplyScalar_def)

lemma vlength_eq_0: "vlength v = 0 \<longleftrightarrow> vx v = 0 \<and> vy v = 0 \<and> vz v = 0"
proof -
  have "vx v * vx v + vy v * vy v + vz v * vz v = 0
        \<longleftrightarrow> vx v * vx v + vy v * vy v = 0 \<and> vz v * vz v = 0"
    by (intro add_nonneg_eq_0_iff) simp_all
  also have "vx v * vx v + vy v * vy v = 0 \<longleftrightarrow> vx v * vx v = 0 \<and> vy v * vy v = 0"
    by (intro add_nonneg_eq_0_iff) simp_all
  finally show ?thesis by (simp add: vlength_def)
qed

lemma normalize_multiplyScalar:
  assumes "0 < k"
  shows "normalize_vec (multiplyScalar v k) = normalize_vec v"
proof (cases "vlength v = 0")
  case True
  then show ?thesis
    by (cases v)
      (simp add: vlength_eq_0 normalize_vec_def divideScalar_def js_or_def multiplyScalar_def)
next
  case False
  have len: "vlength (multiplyScalar v k) = k * vlength v"
    using assms by (simp add: vlength_multiplyScalar)
  with False assms have "js_or (vlength (multiplyScalar v k)) 1 = k * vlength v"
    and "js_or (vlength v) 1 = vlength v"
    by (simp_all add: js_or_def)
  then show ?thesis
    using False assms
    by (simp add: normalize_vec_def divideScalar_def multiplyScalar_def)
qed

lemma sphere_unit:
  "vlength (Vector3 (sin p * cos t) (cos p) (sin p * sin t)) = 1"
proof -
  have ct: "cos t * cos t + sin t * sin t = 1"
    using sin_cos_squared_add2 [of t] by (simp add: power2_eq_square)
  have sp: "sin p * sin p + cos p * cos p = 1"
    using sin_cos_squared_add [of p] by (simp add: power2_eq_square)
  have "sin p * cos t * (sin p * cos t) + cos p * cos p + sin p * sin t * (sin p * sin t)
        = sin p * sin p * (cos t * cos t + sin t * sin t) + cos p * cos p"
    by (simp only: algebra_simps)
  also have "\<dots> = 1"
    by (simp only: ct sp mult_1_right)
  finally have e: "sin p * cos t * (sin p * cos t) + cos p * cos p
                   + sin p * sin t * (sin p * sin t) = 1" .
  show ?thesis unfolding vlength_def by (simp only: vec3.sel e real_sqrt_one)
qed

lemma randomOnSphere_unit: "vlength (fst (randomOnSphere a)) = 1"
  by (simp add: randomOnSphere_def Let_def split_beta sphere_unit)

lemma vlength_fold_y: "vlength (Vector3 (vx v) \<bar>vy v\<bar> (vz v)) = vlength v"
  by (simp add: vlength_def)

lemma vlength_pos_iff:
  "0 < vlength v \<longleftrightarrow> 0 < vx v * vx v + vy v * vy v + vz v * vz v"
  by (simp add: vlength_def)

lemma vlength_pos_y: "vy v \<noteq> 0 \<Longrightarrow> 0 < vlength v"
proof -
  assume "vy v \<noteq> 0"
  then have "0 < vy v * vy v" using not_real_square_gt_zero [of "vy v"] by blast
  moreover have "0 \<le> vx v * vx v" "0 \<le> vz v * vz v" by simp_all
  ultimately show ?thesis unfolding vlength_pos_iff by linarith
qed

lemma rotate_up_length: "vlength (applyAxisAngle v up angle) = vlength v"
proof -
  define s where "s = sin (angle / 2)"
  define c where "c = cos (angle / 2)"
  have sc: "c * c = 1 - s * s"
    using sin_cos_squared_add [of "angle / 2"]
    by (simp add: s_def c_def power2_eq_square)
  have "(vx v + c * (2 * (s * vz v)) + s * (2 * - (s * vx v))) *
        (vx v + c * (2 * (s * vz v)) + s * (2 * - (s * vx v)))
        + (vz v + c * (2 * - (s * vx v)) - s * (2 * (s * vz v))) *
          (vz v + c * (2 * - (s * vx v)) - s * (2 * (s * vz v)))
        = (vx v * vx v + vz v * vz v) * ((1 - 2 * (s * s)) * (1 - 2 * (s * s)) + 4 * (s * s) * (c * c))"
    by (simp add: algebra_simps)
  also have "\<dots> = vx v * vx v + vz v * vz v"
    unfolding sc by (simp add: algebra_simps)
  finally show ?thesis
    by (simp add: applyAxisAngle_def up_def Let_def vlength_def s_def c_def add.commute
        add.left_commute)
qed

lemma dir_positive:
  "0 < vlength (fst (shell_dir ty i a))"
proof (cases ty)
  case Peony
  then show ?thesis by (simp add: peony_dir_def randomOnSphere_unit)
next
  case Ring
  have "0 < vlength (Vector3 (cos t) y (sin t))" for t y :: real
  proof -
    have "cos t * cos t + sin t * sin t = 1"
      using sin_cos_squared_add2 [of t] by (simp add: power2_eq_square)
    moreover have "0 \<le> y * y" by simp
    ultimately have "0 < cos t * cos t + y * y + sin t * sin t" by linarith
    then show ?thesis by (simp add: vlength_def)
  qed
  with Ring show ?thesis by (simp add: ring_dir_def Let_def split_beta)
next
  case Willow
  have r: "0 \<le> fst (mulberry32 b)" for b using mulberry32_range by simp
  have "0 < vlength (multiplyScalar (Vector3 x (\<bar>y\<bar> * 0.6 + 0.1) z)
                 (0.6 + fst (mulberry32 b) * 0.4))" for x y z b
  proof -
    have "0 < (\<bar>y\<bar> * 0.6 + 0.1) * (0.6 + fst (mulberry32 b) * 0.4)"
      using r [of b] by (intro mult_pos_pos) auto
    then have "vy (multiplyScalar (Vector3 x (\<bar>y\<bar> * 0.6 + 0.1) z)
                 (0.6 + fst (mulberry32 b) * 0.4)) \<noteq> 0"
      unfolding multiplyScalar_def vec3.sel by linarith
    then show ?thesis by (rule vlength_pos_y)
  qed
  with Willow show ?thesis by (simp add: willow_dir_def Let_def split_beta)
next
  case Palm
  have "vlength (Vector3 (vx d * 1.4) \<bar>vy d\<bar> (vz d * 1.4)) \<noteq> 0" if "vlength d = 1" for d
  proof -
    from that have s: "vx d * vx d + vy d * vy d + vz d * vz d = 1"
      by (simp add: vlength_def)
    have n: "0 \<le> vx d * vx d" "0 \<le> vz d * vz d" by simp_all
    have e: "vx d * 1.4 * (vx d * 1.4) = (49 / 25) * (vx d * vx d)"
      "vz d * 1.4 * (vz d * 1.4) = (49 / 25) * (vz d * vz d)" by simp_all
    have "0 < vlength (Vector3 (vx d * 1.4) \<bar>vy d\<bar> (vz d * 1.4))"
      unfolding vlength_pos_iff vec3.sel e abs_mult_self_eq using s n by linarith
    then show ?thesis by simp
  qed
  then have "vlength (normalize_vec (Vector3 (vx d * 1.4) \<bar>vy d\<bar> (vz d * 1.4))) = 1"
    if "vlength d = 1" for d
    using that by (intro vlength_normalize) simp
  with Palm show ?thesis
    by (simp add: palm_dir_def Let_def split_beta randomOnSphere_unit)
next
  case Crossette
  have "i mod 3 = 0 \<or> i mod 3 = 1 \<or> i mod 3 = 2" by arith
  then have "vlength (crossette_axes ! (i mod length crossette_axes)) = 1"
    by (auto simp: crossette_axes_def vlength_def)
  with Crossette show ?thesis
    by (simp add: crossette_dir_def Let_def rotate_up_length)
next
  case Comet
  have "vlength (normalize_vec (Vector3 (vx d) \<bar>vy d\<bar> (vz d))) = 1" if "vlength d = 1" for d
    using that by (intro vlength_normalize) (simp add: vlength_fold_y)
  with Comet show ?thesis
    by (simp add: comet_dir_def Let_def split_beta randomOnSphere_unit)
qed

lemma gen_loop_length: "length (fst (gen_loop f i n a)) = n"
  by (induction n arbitrary: i a) (simp_all add: split_beta Let_def)

lemma gen_loop_all:
  "(\<And>j b. P (fst (f j b))) \<Longrightarrow> d \<in> set (fst (gen_loop f i n a)) \<Longrightarrow> P d"
  by (induction n arbitrary: i a) (auto simp: split_beta Let_def)

lemma gen_loop_cong:
  assumes "\<And>j b. snd (f j b) = snd (g j b)"
    and "\<And>j b. h (fst (f j b)) = h (fst (g j b))"
  shows "map h (fst (gen_loop f i n a)) = map h (fst (gen_loop g i n a))
         \<and> snd (gen_loop f i n a) = snd (gen_loop g i n a)"
proof (induction n arbitrary: i a)
  case 0
  show ?case by simp
next
  case (Suc n)
  show ?case
    using Suc [of "Suc i" "snd (f i a)"] assms(1) [of i a] assms(2) [of i a]
    by (simp add: split_beta Let_def)
qed

text \<open>
  C9. Every direction vector the engine uses for an explosion has length 1, for each of
  the six archetypes and every state of the generator: there are 128 of them, each is
  the normalized output of the archetype's generator. The scaling of the willow
  generator has no effect on them: the engine's willow directions are those of the
  generator without the scaling.
\<close>

theorem explosion_directions_unit:
  "i < 128 \<Longrightarrow>
     length (fst (engine_burstDirections ty a)) = 128
     \<and> vlength (fst (engine_burstDirections ty a) ! i) = 1
     \<and> fst (engine_burstDirections Willow a)
         = map normalize_vec (fst (gen_loop willow_dir_unscaled 0 128 a))"
proof -
  assume i: "i < 128"
  have len: "length (fst (engine_burstDirections ty a)) = 128"
    by (simp add: engine_burstDirections_def burstDirections_def split_beta gen_loop_length)
  have "vlength (normalize_vec d) = 1" if "d \<in> set (fst (gen_loop (shell_dir ty) 0 128 a))" for d
  proof -
    have "0 < vlength d"
      using that by (rule gen_loop_all [where P = "\<lambda>d. 0 < vlength d", rotated]) (rule dir_positive)
    then show ?thesis by (intro vlength_normalize) simp
  qed
  then have unit: "vlength (fst (engine_burstDirections ty a) ! i) = 1"
    using i by (simp add: engine_burstDirections_def burstDirections_def split_beta
        gen_loop_length)
  have r: "0 < 0.6 + fst (mulberry32 b) * 0.4" for b
    using mulberry32_range [of b] by (intro add_pos_nonneg) auto
  have f: "normalize_vec (fst (willow_dir j b)) = normalize_vec (fst (willow_dir_unscaled j b))"
    for j b
    unfolding willow_dir_def willow_dir_unscaled_def Let_def split_beta fst_conv
    by (rule normalize_multiplyScalar) (rule r)
  have g: "snd (willow_dir j b) = snd (willow_dir_unscaled j b)" for j b
    by (simp add: willow_dir_def willow_dir_unscaled_def Let_def split_beta)
  have "map normalize_vec (fst (gen_loop willow_dir 0 128 a))
        = map normalize_vec (fst (gen_loop willow_dir_unscaled 0 128 a))"
    using gen_loop_cong [of willow_dir willow_dir_unscaled normalize_vec, OF g f] by blast
  then have "fst (engine_burstDirections Willow a)
             = map normalize_vec (fst (gen_loop willow_dir_unscaled 0 128 a))"
    by (simp add: engine_burstDirections_def burstDirections_def split_beta)
  with len unit show ?thesis by simp
qed

theorem explosion_directions_unit_witness:
  "(0::nat) < 128 \<and> vlength (fst (engine_burstDirections Crossette 1337) ! 0) = 1"
  using explosion_directions_unit [of 0 Crossette 1337] by simp

section \<open>The palette sampler\<close>

lemma foldl_weights:
  "foldl (\<lambda>sum c. sum + pc_weight c) z palette = z + sum_list (map pc_weight palette)"
  by (induction palette arbitrary: z) simp_all

text \<open>
  C8. On a palette of exactly one colour the sampler returns that colour, whatever its
  weight and whatever the state of the generator. The number that the loop compares with
  the running sums is the draw times the sum of the weights of the palette of this call:
  for every palette the result is the first colour whose running sum reaches that number,
  and the last colour when none does. On two colours that is the first colour exactly when
  the draw times the sum of both weights is at most the first weight; a call that follows
  on an edited palette is decided by the weights of the edited palette alone. Every call
  draws one random number.
\<close>

theorem palette_sampler:
  "fst (pickPaletteColor [c] a) = Some c
   \<and> fst (pickPaletteColor palette a)
       = (case pick_loop (fst (mulberry32 a) * sum_list (map pc_weight palette)) 0 palette of
            Some c \<Rightarrow> Some c
          | None \<Rightarrow> if palette = [] then None else Some (last palette))
   \<and> fst (pickPaletteColor [c1, c2] a)
       = Some (if fst (mulberry32 a) * (pc_weight c1 + pc_weight c2) \<le> pc_weight c1
               then c1 else c2)
   \<and> fst (pickPaletteColor [c3, c4] (snd (pickPaletteColor [c1, c2] a)))
       = Some (if fst (mulberry32 (snd (mulberry32 a))) * (pc_weight c3 + pc_weight c4)
                  \<le> pc_weight c3
               then c3 else c4)
   \<and> snd (pickPaletteColor palette a) = snd (mulberry32 a)"
  by (simp add: pickPaletteColor_def Let_def split_beta foldl_weights split: option.splits)

section \<open>Interactive sparsity correction\<close>









lemma spawn_at_position:
  "enabled (shellTypes cfg Peony) \<Longrightarrow>
   map position (bursts (snd (spawnBurst cfg perf (Some p) alt e))) = map position (bursts e) @ [p]"
  by (simp add: spawnBurst_def shellTypeKeys_def Let_def split_beta split: option.splits)





text \<open>
  C5. A candidate position that coincides with a burst is not moved: three.js normalizes
  the zero vector to the zero vector, whose length is finite, so the fallback direction
  is never taken and the scaled direction adds nothing. Two pointer triggers at the same
  point before a tick give two bursts at the same position, although the minimum
  distance is 45.
\<close>

theorem coincident_not_pushed:
  "enforceSparsity default_settings [launched Peony (Vector3 0 320 0)] (Vector3 0 320 0)
     = Vector3 0 320 0
   \<and> minDistance (spawnLayout default_settings) = 45
   \<and> map position (bursts (triggerBurstAtScreen default_settings (\<lambda>k. 0) (Vector3 0 320 0)
        (triggerBurstAtScreen default_settings (\<lambda>k. 0) (Vector3 0 320 0) (new_engine 1337))))
     = [Vector3 0 320 0, Vector3 0 320 0]"
proof -
  have f: "enforceSparsity default_settings [launched Peony (Vector3 0 320 0)] (Vector3 0 320 0)
             = Vector3 0 320 0"
    by (simp add: enforceSparsity_def default_settings_def launched_def Let_def distanceTo_def
        vsub_def normalize_vec_def divideScalar_def multiplyScalar_def js_or_def vlength_def
        addScaledVector_def Number_isFinite_def)
  have en: "enabled (shellTypes default_settings Peony)"
    by (simp add: default_settings_def)
  have md: "minDistance (spawnLayout default_settings) = 45"
    by (simp add: default_settings_def)
  define e1 where "e1 = triggerBurstAtScreen default_settings (\<lambda>k. 0) (Vector3 0 320 0) (new_engine 1337)"
  have p1: "map position (bursts e1) = [Vector3 0 320 0]"
    unfolding e1_def triggerBurstAtScreen_def Let_def
    by (simp add: spawn_at_position en) (simp add: new_engine_def enforceSparsity_def)
  then obtain b where b: "bursts e1 = [b]" "position b = Vector3 0 320 0"
    by (cases "bursts e1") auto
  have "enforceSparsity default_settings (bursts e1) (Vector3 0 320 0) = Vector3 0 320 0"
    by (simp add: b enforceSparsity_def md Let_def distanceTo_def vsub_def normalize_vec_def
        divideScalar_def multiplyScalar_def js_or_def vlength_def addScaledVector_def
        Number_isFinite_def)
  then have "map position (bursts (triggerBurstAtScreen default_settings (\<lambda>k. 0)
                 (Vector3 0 320 0) e1)) = [Vector3 0 320 0, Vector3 0 320 0]"
    unfolding triggerBurstAtScreen_def [of _ _ _ e1] Let_def
    by (simp add: spawn_at_position en p1)
  with f md show ?thesis
    unfolding e1_def by simp
qed


section \<open>Spawning and the scheduler\<close>

lemma spawn_none_enabled:
  "\<forall>t. \<not> enabled (shellTypes cfg t) \<Longrightarrow> spawnBurst cfg perf pos alt e = (False, e)"
  by (simp add: spawnBurst_def)

lemma spawn_times_none_enabled:
  "\<forall>t. \<not> enabled (shellTypes cfg t) \<Longrightarrow> spawn_times cfg perf n e = e"
  by (induction n arbitrary: e) (simp_all add: spawn_none_enabled)

text \<open>
  C10. When every archetype is disabled, \<^verbatim>\<open>spawnBurst\<close> returns false and leaves the
  engine as it is, whatever the position and the altitude it is given; so the scheduler
  (its floor and its staggered spawn) and the pointer trigger leave the engine as it is,
  and no burst is created.
\<close>

theorem disabled_archetypes_no_spawn:
  assumes "\<forall>t. \<not> enabled (shellTypes cfg t)"
  shows "spawnBurst cfg perf pos alt e = (False, e)
         \<and> maintainScheduler cfg perf e = e
         \<and> triggerBurstAtScreen cfg perf x e = e"
  using assms
  by (simp add: spawn_none_enabled spawn_times_none_enabled maintainScheduler_def
      triggerBurstAtScreen_def Let_def)

theorem disabled_archetypes_no_spawn_witness:
  "(\<forall>t. \<not> enabled (shellTypes all_disabled t))
   \<and> spawnBurst all_disabled (\<lambda>k. 0) None None (new_engine 1337) = (False, new_engine 1337)
   \<and> maintainScheduler all_disabled (\<lambda>k. 0) (new_engine 1337) = new_engine 1337
   \<and> triggerBurstAtScreen all_disabled (\<lambda>k. 0) (Vector3 0 320 0) (new_engine 1337)
       = new_engine 1337"
  using disabled_archetypes_no_spawn [of all_disabled "\<lambda>k. 0" None None "new_engine 1337"
      "Vector3 0 320 0"]
  by (simp add: all_disabled_def)

lemma visible_count_append:
  "\<not> exploded b \<Longrightarrow> length (filter visible (bs @ [b])) = Suc (length (filter visible bs))"
  by (simp add: visible_def)

lemma spawn_outcomes_length: "length (spawn_outcomes cfg perf k e) = k"
  by (induction k arbitrary: e) simp_all

lemma spawn_result:
  "(fst (spawnBurst cfg perf pos alt e) \<longrightarrow>
      (\<exists>b. bursts (snd (spawnBurst cfg perf pos alt e)) = bursts e @ [b] \<and> \<not> exploded b))
   \<and> (\<not> fst (spawnBurst cfg perf pos alt e) \<longrightarrow>
        bursts (snd (spawnBurst cfg perf pos alt e)) = bursts e)"
  by (simp add: spawnBurst_def Let_def split_beta split: list.splits option.splits)

lemma spawn_visible_exact:
  "length (filter visible (bursts (snd (spawnBurst cfg perf pos alt e))))
   = length (filter visible (bursts e)) + (if fst (spawnBurst cfg perf pos alt e) then 1 else 0)"
proof (cases "fst (spawnBurst cfg perf pos alt e)")
  case True
  then obtain b where "bursts (snd (spawnBurst cfg perf pos alt e)) = bursts e @ [b]"
      "\<not> exploded b"
    using spawn_result [of cfg perf pos alt e] by blast
  with True show ?thesis
    using visible_count_append [of b "bursts e"] by simp
next
  case False
  then have "bursts (snd (spawnBurst cfg perf pos alt e)) = bursts e"
    using spawn_result [of cfg perf pos alt e] by blast
  with False show ?thesis by simp
qed

lemma spawn_times_outcomes:
  "length (filter visible (bursts (spawn_times cfg perf k e)))
   = length (filter visible (bursts e)) + length (filter (\<lambda>ok. ok) (spawn_outcomes cfg perf k e))"
proof (induction k arbitrary: e)
  case 0
  show ?case by simp
next
  case (Suc k)
  show ?case
    using Suc [of "snd (spawnBurst cfg perf None None e)"]
      spawn_visible_exact [of cfg perf None None e]
    by simp
qed

lemma filter_all_true: "\<forall>ok \<in> set oks. ok \<Longrightarrow> filter (\<lambda>ok. ok) oks = oks"
  by (induction oks) auto

lemma first_spawn_succeeds:
  "enabled (shellTypes cfg Peony) \<Longrightarrow> bursts e = [] \<Longrightarrow> fst (spawnBurst cfg perf None None e)"
  by (simp add: spawnBurst_def shellTypeKeys_def sampleLaunchPosition_def eval_nat_numeral
      Let_def split_beta split: list.splits option.splits)

text \<open>
  C3, as stated, fails: with every archetype disabled and \<^verbatim>\<open>minSimultaneous\<close> 3, the
  scheduler leaves the new engine without a visible burst.
\<close>

theorem scheduler_floor_not_reached:
  "length (filter visible (bursts (maintainScheduler all_disabled (\<lambda>k. 0) (new_engine 1337)))) = 0
   \<and> minSimultaneous (scheduler all_disabled) = 3"
  by (simp add: spawn_none_enabled spawn_times_none_enabled maintainScheduler_def Let_def
      all_disabled_def default_settings_def new_engine_def)

text \<open>
  C3, amended. In a tick in which the count \<open>v\<close> of visible bursts is below
  \<^verbatim>\<open>minSimultaneous\<close>, the scheduler calls \<^verbatim>\<open>spawnBurst\<close> exactly
  \<open>\<lceil>minSimultaneous - v\<rceil>\<close> times, one call after the other, whether playing or paused,
  and no time otherwise; when playing, one staggered call follows if \<open>v\<close> is below
  \<^verbatim>\<open>maxSimultaneous\<close> and the time of the next burst has come. A call that fails is
  not repeated: after the calls of the floor the count of visible bursts is \<open>v\<close> plus the
  number of calls that returned true, and the staggered call adds one if it is made and
  returns true. When every call of the floor returns true, the count reaches
  \<^verbatim>\<open>minSimultaneous\<close>.
\<close>

theorem scheduler_floor_attempts:
  "(let v = length (filter visible (bursts e));
        k = floor_attempts cfg e;
        oks = spawn_outcomes cfg perf k e;
        e1 = spawn_times cfg perf k e;
        staggered = (playing (scheduler cfg) \<and> real v < maxSimultaneous (scheduler cfg)
                     \<and> nextBurstTime e1 \<le> elapsed e1);
        e2 = maintainScheduler cfg perf e
    in e2 = (if staggered then snd (spawnBurst cfg perf None None e1) else e1)
       \<and> length oks = k
       \<and> length (filter visible (bursts e1)) = v + length (filter (\<lambda>ok. ok) oks)
       \<and> length (filter visible (bursts e2))
           = length (filter visible (bursts e1))
             + (if staggered \<and> fst (spawnBurst cfg perf None None e1) then 1 else 0)
       \<and> ((\<forall>ok \<in> set oks. ok) \<longrightarrow>
            minSimultaneous (scheduler cfg) \<le> real (length (filter visible (bursts e2)))))"
proof -
  define v where "v = length (filter visible (bursts e))"
  define m where "m = minSimultaneous (scheduler cfg)"
  define k where "k = floor_attempts cfg e"
  define oks where "oks = spawn_outcomes cfg perf k e"
  define e1 where "e1 = spawn_times cfg perf k e"
  define staggered where "staggered \<longleftrightarrow> playing (scheduler cfg)
      \<and> real v < maxSimultaneous (scheduler cfg) \<and> nextBurstTime e1 \<le> elapsed e1"
  define e2 where "e2 = maintainScheduler cfg perf e"
  have k: "k = (if real v < m then nat \<lceil>m - real v\<rceil> else 0)"
    by (simp add: k_def floor_attempts_def v_def m_def)
  have floor: "(if real v < m then spawn_times cfg perf (nat \<lceil>m - real v\<rceil>) e else e) = e1"
    by (simp add: e1_def k)
  have a: "e2 = (if staggered then snd (spawnBurst cfg perf None None e1) else e1)"
    unfolding e2_def maintainScheduler_def Let_def
    unfolding v_def [symmetric] m_def [symmetric] floor
    by (simp add: staggered_def)
  have b: "length oks = k"
    by (simp add: oks_def spawn_outcomes_length)
  have c: "length (filter visible (bursts e1)) = v + length (filter (\<lambda>ok. ok) oks)"
    by (simp add: e1_def oks_def v_def spawn_times_outcomes)
  have d: "length (filter visible (bursts e2))
           = length (filter visible (bursts e1))
             + (if staggered \<and> fst (spawnBurst cfg perf None None e1) then 1 else 0)"
    unfolding a using spawn_visible_exact [of cfg perf None None e1] by simp
  have f: "m \<le> real (length (filter visible (bursts e2)))" if "\<forall>ok \<in> set oks. ok"
  proof -
    from that have "length (filter (\<lambda>ok. ok) oks) = k"
      by (simp add: filter_all_true b)
    with c have c1: "length (filter visible (bursts e1)) = v + k" by simp
    have "m \<le> real (v + k)"
      unfolding k by (cases "real v < m") (simp_all, linarith)
    with c1 d show ?thesis by simp
  qed
  from a b c d f show ?thesis
    unfolding Let_def v_def m_def k_def oks_def e1_def staggered_def e2_def
    by blast
qed

theorem scheduler_floor_attempts_witness:
  "spawn_outcomes single_floor (\<lambda>k. 0) (floor_attempts single_floor (new_engine 1337))
     (new_engine 1337) = [True]
   \<and> poissonRadius (spawnLayout single_floor) = 55
   \<and> minSimultaneous (scheduler single_floor)
        \<le> real (length (filter visible (bursts (maintainScheduler single_floor (\<lambda>k. 0)
             (new_engine 1337)))))"
proof -
  have k: "floor_attempts single_floor (new_engine 1337) = 1"
    by (simp add: floor_attempts_def single_floor_def default_settings_def new_engine_def)
  have en: "enabled (shellTypes single_floor Peony)"
    by (simp add: single_floor_def default_settings_def)
  have oks: "spawn_outcomes single_floor (\<lambda>k. 0) 1 (new_engine 1337) = [True]"
    using first_spawn_succeeds [OF en, of "new_engine 1337" "\<lambda>k. 0"]
    by (simp add: new_engine_def)
  have pr: "poissonRadius (spawnLayout single_floor) = 55"
    by (simp add: single_floor_def default_settings_def)
  note floor = scheduler_floor_attempts [of "new_engine 1337" single_floor "\<lambda>k. 0",
      unfolded Let_def k oks]
  have "minSimultaneous (scheduler single_floor)
        \<le> real (length (filter visible (bursts (maintainScheduler single_floor (\<lambda>k. 0)
             (new_engine 1337)))))"
    using floor [THEN conjunct2, THEN conjunct2, THEN conjunct2, THEN conjunct2] by simp
  with oks pr show ?thesis
    unfolding k by blast
qed

section \<open>The physics integrator\<close>

lemma one_spark_eval:
  "activeIndices one_spark = [23999]"
  "positions one_spark = (replicate 24000 (Vector3 0 0 0))[23999 := Vector3 0 100 0]"
  "velocities one_spark = (replicate 24000 (Vector3 0 0 0))[23999 := Vector3 0 0 0]"
  "extras one_spark = (replicate 24000 (Extra 0 0 0 0))[23999 := Extra 2 0 9 16]"
  "elapsed one_spark = 0.05"
  by (simp_all add: one_spark_def allocateParticle_def new_engine_def setParticle_def
      MAX_PARTICLES_def)

lemma release_arrays:
  "velocities (releaseParticle index e) = velocities e"
  "positions (releaseParticle index e) = positions e"
  "extras (releaseParticle index e) = extras e"
  by (simp_all add: releaseParticle_def Let_def split: option.splits)

lemma butlast_upt: "butlast [m..<n] = [m..<n - 1]"
  by (cases n) simp_all

lemma release_lists:
  "activeIndices (releaseParticle index e) = activeIndices e"
  "freeIndices (releaseParticle index e) = freeIndices e @ [index]"
  "elapsed (releaseParticle index e) = elapsed e"
  by (simp_all add: releaseParticle_def Let_def split: option.splits)

lemma set_splice1:
  assumes "distinct xs" and "i < length xs"
  shows "set (splice1 i xs) = set xs - {xs ! i}"
proof -
  have xs: "xs = take i xs @ xs ! i # drop (Suc i) xs"
    using assms(2) by (rule id_take_nth_drop)
  with assms(1) have d: "distinct (take i xs @ xs ! i # drop (Suc i) xs)" by simp
  have "set xs = set (take i xs) \<union> {xs ! i} \<union> set (drop (Suc i) xs)"
    by (subst xs) auto
  moreover from d have "xs ! i \<notin> set (take i xs)" "xs ! i \<notin> set (drop (Suc i) xs)"
    by auto
  ultimately show ?thesis
    by (auto simp: splice1_def)
qed

lemma distinct_splice1: "distinct xs \<Longrightarrow> distinct (splice1 i xs)"
proof -
  assume "distinct xs"
  then have "distinct (take i xs @ drop i xs)" by simp
  then have "distinct (take i xs)" "distinct (drop i xs)"
    "set (take i xs) \<inter> set (drop i xs) = {}"
    by (simp_all only: distinct_append) 
  moreover have "set (drop (Suc i) xs) \<subseteq> set (drop i xs)"
    by (simp add: set_drop_subset_set_drop)
  moreover have "distinct (drop (Suc i) xs)"
    using \<open>distinct xs\<close> by simp
  ultimately show ?thesis
    unfolding splice1_def by (auto simp: distinct_append)
qed

lemma take_splice1: "i \<le> length xs \<Longrightarrow> take i (splice1 i xs) = take i xs"
  by (simp add: splice1_def)

lemma particle_step_form:
  "\<exists>e2 :: Engine. activeIndices e2 = activeIndices s \<and> freeIndices e2 = freeIndices s
      \<and> elapsed e2 = elapsed s
      \<and> (\<forall>k. activeIndices s ! i \<noteq> k \<longrightarrow>
             velocities e2 ! k = velocities s ! k \<and> positions e2 ! k = positions s ! k
             \<and> extras e2 ! k = extras s ! k)
      \<and> (particle_step cfg delta i s = e2
         \<or> particle_step cfg delta i s
             = releaseParticle (activeIndices s ! i)
                 (e2\<lparr>activeIndices := splice1 i (activeIndices e2)\<rparr>))"
proof -
  define index where "index = activeIndices s ! i"
  define A where "A e2 \<longleftrightarrow> activeIndices e2 = activeIndices s \<and> freeIndices e2 = freeIndices s
      \<and> elapsed e2 = elapsed s
      \<and> (\<forall>k. index \<noteq> k \<longrightarrow>
             velocities e2 ! k = velocities s ! k \<and> positions e2 ! k = positions s ! k
             \<and> extras e2 ! k = extras s ! k)" for e2 :: Engine
  define P where "P r \<longleftrightarrow> (\<exists>e2. A e2 \<and> (r = e2
      \<or> r = releaseParticle index (e2\<lparr>activeIndices := splice1 i (activeIndices e2)\<rparr>)))" for r
  have rel: "P (releaseParticle index (e2\<lparr>activeIndices := splice1 i (activeIndices e2)\<rparr>))"
    if "A e2" for e2 :: Engine
    unfolding P_def using that by blast
  have keep: "P e2" if "A e2" for e2 :: Engine
    unfolding P_def using that by blast
  have "P (particle_step cfg delta i s)"
    unfolding particle_step_def Let_def index_def [symmetric]
    by (intro if_split [where P = P, THEN iffD2] conjI impI rel keep)
      (simp_all (no_asm) add: A_def)
  then show ?thesis
    unfolding P_def A_def index_def by blast
qed

lemma particle_step_lists:
  "activeIndices (particle_step cfg delta i s) = activeIndices s
     \<and> freeIndices (particle_step cfg delta i s) = freeIndices s
   \<or> activeIndices (particle_step cfg delta i s) = splice1 i (activeIndices s)
      \<and> freeIndices (particle_step cfg delta i s) = freeIndices s @ [activeIndices s ! i]"
proof -
  obtain e2 where e2: "activeIndices e2 = activeIndices s" "freeIndices e2 = freeIndices s"
    and r: "particle_step cfg delta i s = e2
         \<or> particle_step cfg delta i s
             = releaseParticle (activeIndices s ! i)
                 (e2\<lparr>activeIndices := splice1 i (activeIndices e2)\<rparr>)"
    using particle_step_form [of s i cfg delta] by blast
  from r show ?thesis
  proof
    assume "particle_step cfg delta i s = e2"
    with e2 show ?thesis by simp
  next
    assume "particle_step cfg delta i s
             = releaseParticle (activeIndices s ! i)
                 (e2\<lparr>activeIndices := splice1 i (activeIndices e2)\<rparr>)"
    with e2 show ?thesis by (simp add: release_lists)
  qed
qed

lemma particle_step_elapsed: "elapsed (particle_step cfg delta i s) = elapsed s"
proof -
  obtain e2 where e2: "elapsed e2 = elapsed s"
    and r: "particle_step cfg delta i s = e2
         \<or> particle_step cfg delta i s
             = releaseParticle (activeIndices s ! i)
                 (e2\<lparr>activeIndices := splice1 i (activeIndices e2)\<rparr>)"
    using particle_step_form [of s i cfg delta] by blast
  from r e2 show ?thesis
    by (auto simp: release_lists)
qed

lemma particle_step_lengths:
  "length (velocities (particle_step cfg delta i s)) = length (velocities s)
   \<and> length (positions (particle_step cfg delta i s)) = length (positions s)
   \<and> length (extras (particle_step cfg delta i s)) = length (extras s)"
proof -
  define P where "P r \<longleftrightarrow> length (velocities r) = length (velocities s)
      \<and> length (positions r) = length (positions s)
      \<and> length (extras r) = length (extras s)" for r :: Engine
  have rel: "P (releaseParticle index e2)" if "P e2" for e2 index
    using that by (simp add: P_def release_arrays)
  have "P (particle_step cfg delta i s)"
    unfolding particle_step_def Let_def
    by (intro if_split [where P = P, THEN iffD2] conjI impI rel)
      (simp_all (no_asm) add: P_def)
  then show ?thesis by (simp add: P_def)
qed

lemma particle_step_struct:
  assumes "distinct (activeIndices s)" and "i < length (activeIndices s)"
  shows "distinct (activeIndices (particle_step cfg delta i s))"
    and "take i (activeIndices (particle_step cfg delta i s)) = take i (activeIndices s)"
    and "i \<le> length (activeIndices (particle_step cfg delta i s))"
proof -
  from assms(2) have le: "i \<le> length (splice1 i (activeIndices s))"
    by (simp add: splice1_def)
  from assms(2) have tk: "take i (splice1 i (activeIndices s)) = take i (activeIndices s)"
    by (simp add: take_splice1)
  have ds: "distinct (splice1 i (activeIndices s))"
    using assms(1) by (rule distinct_splice1)
  consider (keep) "activeIndices (particle_step cfg delta i s) = activeIndices s"
    | (rel) "activeIndices (particle_step cfg delta i s) = splice1 i (activeIndices s)"
    using particle_step_lists [of cfg delta i s] by blast
  then show "distinct (activeIndices (particle_step cfg delta i s))"
  proof cases
    case keep
    with assms(1) show ?thesis by simp
  next
    case rel
    with ds show ?thesis by simp
  qed
  consider (keep) "activeIndices (particle_step cfg delta i s) = activeIndices s"
    | (rel) "activeIndices (particle_step cfg delta i s) = splice1 i (activeIndices s)"
    using particle_step_lists [of cfg delta i s] by blast
  then show "take i (activeIndices (particle_step cfg delta i s)) = take i (activeIndices s)"
  proof cases
    case keep
    then show ?thesis by simp
  next
    case rel
    with tk show ?thesis by simp
  qed
  consider (keep) "activeIndices (particle_step cfg delta i s) = activeIndices s"
    | (rel) "activeIndices (particle_step cfg delta i s) = splice1 i (activeIndices s)"
    using particle_step_lists [of cfg delta i s] by blast
  then show "i \<le> length (activeIndices (particle_step cfg delta i s))"
  proof cases
    case keep
    with assms(2) show ?thesis by simp
  next
    case rel
    with le show ?thesis by simp
  qed
qed

lemma particle_step_frame:
  assumes "distinct (activeIndices s)" and "i < length (activeIndices s)"
    and "k \<noteq> activeIndices s ! i"
  shows "velocities (particle_step cfg delta i s) ! k = velocities s ! k"
    and "positions (particle_step cfg delta i s) ! k = positions s ! k"
    and "extras (particle_step cfg delta i s) ! k = extras s ! k"
    and "k \<in> set (activeIndices (particle_step cfg delta i s)) \<longleftrightarrow> k \<in> set (activeIndices s)"
    and "k \<in> set (freeIndices (particle_step cfg delta i s)) \<longleftrightarrow> k \<in> set (freeIndices s)"
proof -
  from assms(3) have ne: "activeIndices s ! i \<noteq> k" by simp
  obtain e2 :: Engine where "activeIndices e2 = activeIndices s"
    and "freeIndices e2 = freeIndices s" and "elapsed e2 = elapsed s"
    and fr: "\<forall>k. activeIndices s ! i \<noteq> k \<longrightarrow>
           velocities e2 ! k = velocities s ! k \<and> positions e2 ! k = positions s ! k
           \<and> extras e2 ! k = extras s ! k"
    and r: "particle_step cfg delta i s = e2
         \<or> particle_step cfg delta i s
             = releaseParticle (activeIndices s ! i)
                 (e2\<lparr>activeIndices := splice1 i (activeIndices e2)\<rparr>)"
    using particle_step_form [of s i cfg delta] by blast
  note e2 = fr [rule_format, OF ne]
  have arr: "velocities (particle_step cfg delta i s) = velocities e2
      \<and> positions (particle_step cfg delta i s) = positions e2
      \<and> extras (particle_step cfg delta i s) = extras e2"
    using r
  proof
    assume "particle_step cfg delta i s = e2"
    then show ?thesis by simp
  next
    assume "particle_step cfg delta i s
             = releaseParticle (activeIndices s ! i)
                 (e2\<lparr>activeIndices := splice1 i (activeIndices e2)\<rparr>)"
    then show ?thesis by (simp add: release_arrays)
  qed
  from arr e2 show "velocities (particle_step cfg delta i s) ! k = velocities s ! k"
    by simp
  from arr e2 show "positions (particle_step cfg delta i s) ! k = positions s ! k"
    by simp
  from arr e2 show "extras (particle_step cfg delta i s) ! k = extras s ! k"
    by simp
  have sp: "set (splice1 i (activeIndices s)) = set (activeIndices s) - {activeIndices s ! i}"
    by (rule set_splice1 [OF assms(1,2)])
  consider (keep) "activeIndices (particle_step cfg delta i s) = activeIndices s"
      "freeIndices (particle_step cfg delta i s) = freeIndices s"
    | (rel) "activeIndices (particle_step cfg delta i s) = splice1 i (activeIndices s)"
      "freeIndices (particle_step cfg delta i s) = freeIndices s @ [activeIndices s ! i]"
    using particle_step_lists [of cfg delta i s] by blast
  then show "k \<in> set (activeIndices (particle_step cfg delta i s)) \<longleftrightarrow> k \<in> set (activeIndices s)"
  proof cases
    case keep
    then show ?thesis by simp
  next
    case rel
    with sp assms(3) show ?thesis by simp
  qed
  consider (keep) "activeIndices (particle_step cfg delta i s) = activeIndices s"
      "freeIndices (particle_step cfg delta i s) = freeIndices s"
    | (rel) "activeIndices (particle_step cfg delta i s) = splice1 i (activeIndices s)"
      "freeIndices (particle_step cfg delta i s) = freeIndices s @ [activeIndices s ! i]"
    using particle_step_lists [of cfg delta i s] by blast
  then show "k \<in> set (freeIndices (particle_step cfg delta i s)) \<longleftrightarrow> k \<in> set (freeIndices s)"
  proof cases
    case keep
    then show ?thesis by simp
  next
    case rel
    with assms(3) show ?thesis by simp
  qed
qed

lemma particles_loop_frame:
  assumes "distinct (activeIndices s)" and "i \<le> length (activeIndices s)"
    and "k \<notin> set (take i (activeIndices s))"
  shows "velocities (particles_loop cfg delta i s) ! k = velocities s ! k
         \<and> positions (particles_loop cfg delta i s) ! k = positions s ! k
         \<and> extras (particles_loop cfg delta i s) ! k = extras s ! k
         \<and> (k \<in> set (activeIndices (particles_loop cfg delta i s)) \<longleftrightarrow> k \<in> set (activeIndices s))
         \<and> (k \<in> set (freeIndices (particles_loop cfg delta i s)) \<longleftrightarrow> k \<in> set (freeIndices s))"
  using assms
proof (induction i arbitrary: s)
  case 0
  show ?case by simp
next
  case (Suc i)
  let ?s = "particle_step cfg delta i s"
  from Suc.prems have i: "i < length (activeIndices s)" by simp
  have tk: "take (Suc i) (activeIndices s) = take i (activeIndices s) @ [activeIndices s ! i]"
    using i by (rule take_Suc_conv_app_nth)
  with Suc.prems(3) have ne: "k \<noteq> activeIndices s ! i"
    and nt: "k \<notin> set (take i (activeIndices s))"
    by auto
  note st = particle_step_struct [OF Suc.prems(1) i, of cfg delta]
  have "k \<notin> set (take i (activeIndices ?s))"
    using nt st(2) by simp
  from Suc.IH [OF st(1) st(3) this] particle_step_frame [OF Suc.prems(1) i ne, of cfg delta]
  show ?case by simp
qed

lemma particle_step_dead:
  assumes "k = activeIndices s ! i" and "life (extras s ! k) \<le> 0"
  shows "particle_step cfg delta i s
         = releaseParticle k (s\<lparr>activeIndices := splice1 i (activeIndices s)\<rparr>)"
  using assms by (simp add: particle_step_def Let_def)

lemma particle_step_live_lists:
  assumes "k = activeIndices s ! i" and "0 < life (extras s ! k)"
  shows "activeIndices (particle_step cfg delta i s)
           = (if life (extras s ! k) \<le> p_age (extras s ! k) + delta
              then splice1 i (activeIndices s) else activeIndices s)"
    and "freeIndices (particle_step cfg delta i s)
           = (if life (extras s ! k) \<le> p_age (extras s ! k) + delta
              then freeIndices s @ [k] else freeIndices s)"
proof -
  from assms(2) have l: "\<not> life (extras s ! (activeIndices s ! i)) \<le> 0"
    using assms(1) by simp
  show "activeIndices (particle_step cfg delta i s)
           = (if life (extras s ! k) \<le> p_age (extras s ! k) + delta
              then splice1 i (activeIndices s) else activeIndices s)"
    unfolding particle_step_def Let_def assms(1) if_not_P [OF l]
    by (simp add: release_lists if_distrib [where f = activeIndices] not_less
        split del: if_split cong: if_cong)
  show "freeIndices (particle_step cfg delta i s)
           = (if life (extras s ! k) \<le> p_age (extras s ! k) + delta
              then freeIndices s @ [k] else freeIndices s)"
    unfolding particle_step_def Let_def assms(1) if_not_P [OF l]
    by (simp add: release_lists if_distrib [where f = freeIndices] not_less
        split del: if_split cong: if_cong)
qed

lemma particle_step_at:
  assumes "distinct (activeIndices s)" and "i < length (activeIndices s)"
    and "k = activeIndices s ! i"
    and "k < length (positions s)" and "k < length (velocities s)" and "k < length (extras s)"
  shows "let x = extras s ! k;
             st = spec_integrate (effective_gravity cfg) (effective_drag cfg) (wind (physics cfg))
                    (turbulenceFrequency (physics cfg)) (effective_turbulence cfg) (elapsed s) delta
                    (velocities s ! k, positions s ! k, p_age x);
             v = fst st; p = fst (snd st); a = snd (snd st);
             bounce = (vy p < 0 \<and> groundCollision (physics cfg) = Rebound);
             s' = particle_step cfg delta i s
         in (life x \<le> 0 \<longrightarrow>
               velocities s' ! k = velocities s ! k \<and> positions s' ! k = positions s ! k
               \<and> extras s' ! k = x
               \<and> k \<notin> set (activeIndices s') \<and> k \<in> set (freeIndices s'))
            \<and> (0 < life x \<longrightarrow>
                 velocities s' ! k = (if bounce then Vector3 (vx v) (\<bar>vy v\<bar> * 0.4) (vz v) else v)
                 \<and> positions s' ! k = (if bounce then Vector3 (vx p) 0 (vz p) else p)
                 \<and> extras s' ! k
                     = Extra (if vy p < 0 \<and> groundCollision (physics cfg) = Fade
                              then min 0.2 (life x) else life x) a (p_glow x) (p_size x)
                 \<and> (k \<in> set (activeIndices s') \<longleftrightarrow> a < life x)
                 \<and> (\<not> a < life x \<longrightarrow> k \<in> set (freeIndices s')))"
proof -
  define st where "st = spec_integrate (effective_gravity cfg) (effective_drag cfg)
      (wind (physics cfg)) (turbulenceFrequency (physics cfg)) (effective_turbulence cfg)
      (elapsed s) delta (velocities s ! k, positions s ! k, p_age (extras s ! k))"
  define s' where "s' = particle_step cfg delta i s"
  have sp: "k \<notin> set (splice1 i (activeIndices s))"
    using set_splice1 [OF assms(1,2)] assms(3) by simp
  have mem: "k \<in> set (activeIndices s)"
    using assms(2,3) by simp
  have a: "snd (snd st) = p_age (extras s ! k) + delta"
    by (simp add: st_def spec_integrate_def Let_def)
  have dead: "velocities s' ! k = velocities s ! k \<and> positions s' ! k = positions s ! k
               \<and> extras s' ! k = extras s ! k
               \<and> k \<notin> set (activeIndices s') \<and> k \<in> set (freeIndices s')"
    if "life (extras s ! k) \<le> 0"
    unfolding s'_def particle_step_dead [OF assms(3) that]
    using sp by (simp add: release_arrays release_lists)
  have arrays: "velocities s' ! k
          = (if vy (fst (snd st)) < 0 \<and> groundCollision (physics cfg) = Rebound
             then Vector3 (vx (fst st)) (\<bar>vy (fst st)\<bar> * 0.4) (vz (fst st)) else fst st)
        \<and> positions s' ! k
          = (if vy (fst (snd st)) < 0 \<and> groundCollision (physics cfg) = Rebound
             then Vector3 (vx (fst (snd st))) 0 (vz (fst (snd st))) else fst (snd st))
        \<and> extras s' ! k
          = Extra (if vy (fst (snd st)) < 0 \<and> groundCollision (physics cfg) = Fade
                   then min 0.2 (life (extras s ! k)) else life (extras s ! k))
              (snd (snd st)) (p_glow (extras s ! k)) (p_size (extras s ! k))"
    if "0 < life (extras s ! k)"
    unfolding s'_def st_def
    using that assms(3-6)
    by (cases "groundCollision (physics cfg)")
      (simp_all add: particle_step_def spec_integrate_def Let_def release_arrays)
  have lists: "(k \<in> set (activeIndices s') \<longleftrightarrow> snd (snd st) < life (extras s ! k))
        \<and> (\<not> snd (snd st) < life (extras s ! k) \<longrightarrow> k \<in> set (freeIndices s'))"
    if "0 < life (extras s ! k)"
    unfolding s'_def a particle_step_live_lists [OF assms(3) that]
    using sp mem by (simp add: not_less)
  show ?thesis
    unfolding Let_def st_def [symmetric] s'_def [symmetric]
    using dead arrays lists by blast
qed

lemma particles_loop_at:
  assumes "distinct (activeIndices s)" and "i \<le> length (activeIndices s)" and "j < i"
    and "k = activeIndices s ! j"
    and "k < length (positions s)" and "k < length (velocities s)" and "k < length (extras s)"
  shows "let x = extras s ! k;
             st = spec_integrate (effective_gravity cfg) (effective_drag cfg) (wind (physics cfg))
                    (turbulenceFrequency (physics cfg)) (effective_turbulence cfg) (elapsed s) delta
                    (velocities s ! k, positions s ! k, p_age x);
             v = fst st; p = fst (snd st); a = snd (snd st);
             bounce = (vy p < 0 \<and> groundCollision (physics cfg) = Rebound);
             s' = particles_loop cfg delta i s
         in (life x \<le> 0 \<longrightarrow>
               velocities s' ! k = velocities s ! k \<and> positions s' ! k = positions s ! k
               \<and> extras s' ! k = x
               \<and> k \<notin> set (activeIndices s') \<and> k \<in> set (freeIndices s'))
            \<and> (0 < life x \<longrightarrow>
                 velocities s' ! k = (if bounce then Vector3 (vx v) (\<bar>vy v\<bar> * 0.4) (vz v) else v)
                 \<and> positions s' ! k = (if bounce then Vector3 (vx p) 0 (vz p) else p)
                 \<and> extras s' ! k
                     = Extra (if vy p < 0 \<and> groundCollision (physics cfg) = Fade
                              then min 0.2 (life x) else life x) a (p_glow x) (p_size x)
                 \<and> (k \<in> set (activeIndices s') \<longleftrightarrow> a < life x)
                 \<and> (\<not> a < life x \<longrightarrow> k \<in> set (freeIndices s')))"
  using assms
proof (induction i arbitrary: s)
  case 0
  then show ?case by simp
next
  case (Suc i)
  let ?s = "particle_step cfg delta i s"
  from Suc.prems(2) have i: "i < length (activeIndices s)" by simp
  note st = particle_step_struct [OF Suc.prems(1) i, of cfg delta]
  note len = particle_step_lengths [of cfg delta i s]
  show ?case
  proof (cases "j = i")
    case True
    with Suc.prems(4) have k: "k = activeIndices s ! i" by simp
    have "k \<notin> set (take i (activeIndices s))"
    proof
      assume "k \<in> set (take i (activeIndices s))"
      then obtain m where m: "m < i" "take i (activeIndices s) ! m = k"
        by (auto simp: in_set_conv_nth)
      with i have "activeIndices s ! m = activeIndices s ! i"
        using k by simp
      with Suc.prems(1) i m(1) show False
        by (simp add: nth_eq_iff_index_eq)
    qed
    then have "k \<notin> set (take i (activeIndices ?s))"
      using st(2) by simp
    note lf = particles_loop_frame [OF st(1) st(3) this, of cfg delta]
    show ?thesis
      unfolding Let_def particles_loop.simps
        lf [THEN conjunct1]
        lf [THEN conjunct2, THEN conjunct1]
        lf [THEN conjunct2, THEN conjunct2, THEN conjunct1]
        lf [THEN conjunct2, THEN conjunct2, THEN conjunct2, THEN conjunct1]
        lf [THEN conjunct2, THEN conjunct2, THEN conjunct2, THEN conjunct2]
      using particle_step_at [OF Suc.prems(1) i k Suc.prems(5-7), of cfg delta, unfolded Let_def]
      .
  next
    case False
    with Suc.prems(3) have j: "j < i" by simp
    have "activeIndices s ! j \<noteq> activeIndices s ! i"
      using Suc.prems(1) i j by (simp add: nth_eq_iff_index_eq)
    then have ne: "k \<noteq> activeIndices s ! i"
      using Suc.prems(4) by simp
    note fr = particle_step_frame [OF Suc.prems(1) i ne, of cfg delta]
    have "activeIndices ?s ! j = take i (activeIndices ?s) ! j"
      using j by simp
    also have "\<dots> = activeIndices s ! j"
      unfolding st(2) using j by simp
    finally have k: "k = activeIndices ?s ! j"
      using Suc.prems(4) by simp
    have b: "k < length (positions ?s)" "k < length (velocities ?s)" "k < length (extras ?s)"
      using len Suc.prems(5-7) by simp_all
    show ?thesis
      unfolding particles_loop.simps
      using Suc.IH [OF st(1) st(3) j k b]
      unfolding Let_def fr(1-3) particle_step_elapsed
      .
  qed
qed

lemma two_sparks_eval:
  "activeIndices two_sparks = [23999, 23998]"
  "velocities two_sparks ! 23998 = Vector3 1 0 0"
  "positions two_sparks ! 23998 = Vector3 0 50 0"
  "extras two_sparks ! 23998 = Extra 0 0 9 16"
  "extras two_sparks ! 23999 = Extra 2 0 9 16"
  "length (velocities two_sparks) = 24000"
  "length (positions two_sparks) = 24000"
  "length (extras two_sparks) = 24000"
  by (simp_all add: two_sparks_def one_spark_def allocateParticle_def new_engine_def
      setParticle_def MAX_PARTICLES_def butlast_upt)

text \<open>
  C6, as stated, fails: with the default settings (gravity \<open>-9.8\<close> of the environment and
  of the shell, drag 0.22 and 0.2, wind 4 along x) a particle at rest gets, in a tick of
  0.05 s, the horizontal velocity 0.1976, where the update of the specification with the
  configured gravity, drag and turbulence strength gives 0.1978; and its vertical
  velocity is below the one that the specification's update gives.
\<close>

theorem integrator_not_configured_parameters:
  "vx (velocities (particle_step default_settings 0.05 0 one_spark) ! 23999) = 0.1976
   \<and> vx (fst (spec_integrate (ph_gravity (physics default_settings))
                (ph_drag (physics default_settings)) (wind (physics default_settings))
                (turbulenceFrequency (physics default_settings))
                (turbulenceStrength (physics default_settings)) (elapsed one_spark) 0.05
                (velocities one_spark ! 23999, positions one_spark ! 23999,
                 p_age (extras one_spark ! 23999)))) = 0.1978
   \<and> vy (velocities (particle_step default_settings 0.05 0 one_spark) ! 23999)
       < vy (fst (spec_integrate (ph_gravity (physics default_settings))
                (ph_drag (physics default_settings)) (wind (physics default_settings))
                (turbulenceFrequency (physics default_settings))
                (turbulenceStrength (physics default_settings)) (elapsed one_spark) 0.05
                (velocities one_spark ! 23999, positions one_spark ! 23999,
                 p_age (extras one_spark ! 23999))))"
proof -
  have "(9 / 400 :: real) \<le> pi"
    using pi_ge_two by linarith
  then have lo: "0 \<le> sin (9 / 400 :: real)"
    by (intro sin_ge_zero) simp_all
  have hi: "sin (9 / 400 :: real) \<le> 9 / 400"
    by (intro sin_x_le_x) simp
  show ?thesis
    using lo hi
    by (simp add: one_spark_eval particle_step_def spec_integrate_def Let_def release_arrays
        effective_gravity_def effective_drag_def effective_turbulence_def default_settings_def
        multiplyScalar_def)
qed

text \<open>
  C6, amended. \<^verbatim>\<open>updateParticles\<close> treats every particle of the active list once. A
  particle whose life is not positive is released without being integrated: its velocity,
  position and extras stay as they are, and its slot leaves the active list and enters
  the free list. A particle whose life is positive gets the semi-implicit Euler update of
  the specification with the effective parameters that \<^verbatim>\<open>updateParticles\<close> computes
  from the settings: gravity \<open>physics.gravity + 0.05 * shellParams.gravity\<close>, drag
  \<open>max 0 (physics.drag + 0.1 * shellParams.drag)\<close>, turbulence strength
  \<open>physics.turbulenceStrength * (0.5 + shellParams.turbulence)\<close>, the wind and the
  turbulence frequency as configured, and the elapsed time of the engine as clock. When
  the new position is below the ground, the collision mode decides: in rebound mode the
  height is set to 0 and the vertical velocity to 0.4 times its absolute value, in fade
  mode the life is cut to at most 0.2. The particle stays active exactly when its new age
  is below the life it had, and is released otherwise. The active list is assumed free of
  duplicates and the slot within the arrays.
\<close>

theorem integrator_every_particle:
  assumes "distinct (activeIndices e)" and "k \<in> set (activeIndices e)"
    and "k < length (positions e)" and "k < length (velocities e)" and "k < length (extras e)"
  shows "let x = extras e ! k;
             st = spec_integrate (effective_gravity cfg) (effective_drag cfg) (wind (physics cfg))
                    (turbulenceFrequency (physics cfg)) (effective_turbulence cfg) (elapsed e) delta
                    (velocities e ! k, positions e ! k, p_age x);
             v = fst st; p = fst (snd st); a = snd (snd st);
             bounce = (vy p < 0 \<and> groundCollision (physics cfg) = Rebound);
             e' = updateParticles cfg delta e
         in (life x \<le> 0 \<longrightarrow>
               velocities e' ! k = velocities e ! k \<and> positions e' ! k = positions e ! k
               \<and> extras e' ! k = x
               \<and> k \<notin> set (activeIndices e') \<and> k \<in> set (freeIndices e'))
            \<and> (0 < life x \<longrightarrow>
                 velocities e' ! k = (if bounce then Vector3 (vx v) (\<bar>vy v\<bar> * 0.4) (vz v) else v)
                 \<and> positions e' ! k = (if bounce then Vector3 (vx p) 0 (vz p) else p)
                 \<and> extras e' ! k
                     = Extra (if vy p < 0 \<and> groundCollision (physics cfg) = Fade
                              then min 0.2 (life x) else life x) a (p_glow x) (p_size x)
                 \<and> (k \<in> set (activeIndices e') \<longleftrightarrow> a < life x)
                 \<and> (\<not> a < life x \<longrightarrow> k \<in> set (freeIndices e')))"
proof -
  from assms(2) obtain j where j: "j < length (activeIndices e)" "k = activeIndices e ! j"
    by (auto simp: in_set_conv_nth)
  show ?thesis
    unfolding updateParticles_def
    by (rule particles_loop_at [OF assms(1) le_refl j assms(3-5)])
qed


theorem integrator_every_particle_witness:
  "distinct (activeIndices two_sparks)
   \<and> 23998 \<in> set (activeIndices two_sparks) \<and> 23999 \<in> set (activeIndices two_sparks)
   \<and> life (extras two_sparks ! 23998) \<le> 0
   \<and> velocities (updateParticles default_settings 0.05 two_sparks) ! 23998 = Vector3 1 0 0
   \<and> positions (updateParticles default_settings 0.05 two_sparks) ! 23998 = Vector3 0 50 0
   \<and> 23998 \<notin> set (activeIndices (updateParticles default_settings 0.05 two_sparks))
   \<and> 23998 \<in> set (freeIndices (updateParticles default_settings 0.05 two_sparks))
   \<and> 0 < life (extras two_sparks ! 23999)
   \<and> p_age (extras (updateParticles default_settings 0.05 two_sparks) ! 23999) = 0.05
   \<and> 23999 \<in> set (activeIndices (updateParticles default_settings 0.05 two_sparks))"
proof -
  have h: "distinct (activeIndices two_sparks)"
    "23998 \<in> set (activeIndices two_sparks)" "23999 \<in> set (activeIndices two_sparks)"
    "23998 < length (positions two_sparks)" "23998 < length (velocities two_sparks)"
    "23998 < length (extras two_sparks)"
    "23999 < length (positions two_sparks)" "23999 < length (velocities two_sparks)"
    "23999 < length (extras two_sparks)"
    by (simp_all add: two_sparks_eval)
  have a: "snd (snd (spec_integrate g d w f t c dt (v, p, ag))) = ag + dt"
    for g d w f t c dt v p ag
    by (simp add: spec_integrate_def Let_def)
  note dead = integrator_every_particle [OF h(1,2,4,5,6), of default_settings "0.05",
      unfolded Let_def, THEN conjunct1]
  note live = integrator_every_particle [OF h(1,3,7,8,9), of default_settings "0.05",
      unfolded Let_def, THEN conjunct2]
  have d: "velocities (updateParticles default_settings 0.05 two_sparks) ! 23998 = Vector3 1 0 0
       \<and> positions (updateParticles default_settings 0.05 two_sparks) ! 23998 = Vector3 0 50 0
       \<and> 23998 \<notin> set (activeIndices (updateParticles default_settings 0.05 two_sparks))
       \<and> 23998 \<in> set (freeIndices (updateParticles default_settings 0.05 two_sparks))"
    using dead by (simp add: two_sparks_eval)
  have l: "p_age (extras (updateParticles default_settings 0.05 two_sparks) ! 23999) = 0.05
       \<and> 23999 \<in> set (activeIndices (updateParticles default_settings 0.05 two_sparks))"
  proof -
    have pos: "0 < life (extras two_sparks ! 23999)"
      by (simp add: two_sparks_eval)
    note lv = live [THEN mp, OF pos]
    have "p_age (extras (updateParticles default_settings 0.05 two_sparks) ! 23999) = 0.05"
      unfolding lv [THEN conjunct2, THEN conjunct2, THEN conjunct1]
      by (simp add: two_sparks_eval a)
    moreover have "23999 \<in> set (activeIndices (updateParticles default_settings 0.05 two_sparks))"
      unfolding lv [THEN conjunct2, THEN conjunct2, THEN conjunct2, THEN conjunct1]
      by (simp add: two_sparks_eval a)
    ultimately show ?thesis by simp
  qed
  from h(1-3) d l show ?thesis
    by (simp add: two_sparks_eval)
qed

text \<open>
  A tick that completes ends with \<^verbatim>\<open>updateParticles\<close> on the clamped delta.
\<close>

lemma animate_particles:
  "animate cfg perf clockDelta e = Inr e' \<Longrightarrow>
     \<exists>e3. e' = updateParticles cfg (min 0.05 clockDelta) e3"
  by (auto simp: animate_def Let_def split: sum.splits)

section \<open>Disposal\<close>

lemma scheduler_none_enabled:
  "\<forall>t. \<not> enabled (shellTypes cfg t) \<Longrightarrow> maintainScheduler cfg perf e = e"
  by (simp add: spawn_none_enabled spawn_times_none_enabled maintainScheduler_def Let_def)

lemma all_disabled_none: "\<forall>t. \<not> enabled (shellTypes all_disabled t)"
  by (simp add: all_disabled_def)

lemma animate_idle:
  "bursts e = [] \<Longrightarrow> activeIndices e = [] \<Longrightarrow> fpsAccumulator e + min 0.05 d < 0.5 \<Longrightarrow>
   animate all_disabled perf d e
     = Inr (e\<lparr>elapsed := elapsed e + min 0.05 d, frameCount := Suc (frameCount e),
              fpsAccumulator := fpsAccumulator e + min 0.05 d\<rparr>)"
  by (simp add: animate_def Let_def scheduler_none_enabled [OF all_disabled_none]
      updateParticles_def)

lemma dispose_queue: "rafQueue (dispose pg) = rafQueue pg \<and> engine (dispose pg) = engine pg"
  by (simp add: dispose_def animationFrameId_def cancelAnimationFrame_def)

text \<open>
  C7. \<^verbatim>\<open>dispose\<close> cancels no animation frame: the engine constructed with every
  archetype disabled has requested its next frame (handle 0); after \<^verbatim>\<open>dispose\<close> the
  request is still pending, the browser runs it, the tick executes (the frame count and
  the elapsed time advance) and requests the frame after. The pointer listeners are
  detached.
\<close>

theorem dispose_does_not_cancel:
  "(case construct all_disabled (\<lambda>k. 0) 0.016 of
      Inl err \<Rightarrow> False
    | Inr pg \<Rightarrow>
        rafQueue pg = [0] \<and> frameCount (engine pg) = 1
        \<and> rafQueue (dispose pg) = [0] \<and> listeners (dispose pg) = []
        \<and> (case run_frame all_disabled (\<lambda>k. 0) 0.016 (dispose pg) of
              Inl err \<Rightarrow> False
            | Inr pg' \<Rightarrow>
                frameCount (engine pg') = 2 \<and> elapsed (engine pg') = 0.032
                \<and> rafQueue pg' = [1]))"
proof -
  have c: "construct all_disabled (\<lambda>k. 0) 0.016
           = Inr \<lparr>engine = (new_engine 1337)\<lparr>elapsed := 0.016, frameCount := 1,
                                             fpsAccumulator := 0.016\<rparr>,
                  rafQueue = [0], nextHandle = 1,
                  listeners = [''pointerdown'', ''pointermove'', ''pointerup''],
                  seedSubscribed = True\<rparr>"
  proof -
    have "seed (scheduler all_disabled) = 1337"
      by (simp add: all_disabled_def default_settings_def)
    then show ?thesis
      by (simp add: construct_def page_animate_def animate_idle new_engine_def
          requestAnimationFrame_def)
  qed
  show ?thesis
    unfolding c
    by (simp add: dispose_def animationFrameId_def cancelAnimationFrame_def run_frame_def
        page_animate_def animate_idle new_engine_def requestAnimationFrame_def)
qed

section \<open>Allocation of an explosion\<close>

lemma nth_update_same: "g x = g (xs ! bi) \<Longrightarrow> g ((xs[bi := x]) ! bi) = g (xs ! bi)"
  by (cases "bi < length xs") (simp_all add: list_update_beyond)

lemma alloc_free:
  "length (freeIndices (snd (allocateParticle e))) \<le> length (freeIndices e)
   \<and> length (freeIndices e) \<le> Suc (length (freeIndices (snd (allocateParticle e))))
   \<and> bursts (snd (allocateParticle e)) = bursts e"
  by (simp add: allocateParticle_def)

lemma alloc_none: "fst (allocateParticle e) = None \<Longrightarrow> snd (allocateParticle e) = e"
  by (simp add: allocateParticle_def split: if_splits)

lemma set_push_free:
  "freeIndices (push_index bi k (setParticle k p v c l s g ow e)) = freeIndices e"
  by (simp add: push_index_def setParticle_def)

lemma set_push_shell:
  "shellType (bursts (push_index bi k (setParticle k p v c l s g ow e)) ! bi)
     = shellType (bursts e ! bi)
   \<and> fragmentCount (bursts (push_index bi k (setParticle k p v c l s g ow e)) ! bi)
     = fragmentCount (bursts e ! bi)"
  by (simp add: push_index_def setParticle_def nth_update_same)

lemma fragment_loop_free:
  "length (freeIndices (fragment_loop n bi v c l s g e)) \<le> length (freeIndices e)
   \<and> length (freeIndices e) \<le> length (freeIndices (fragment_loop n bi v c l s g e)) + n
   \<and> shellType (bursts (fragment_loop n bi v c l s g e) ! bi) = shellType (bursts e ! bi)
   \<and> fragmentCount (bursts (fragment_loop n bi v c l s g e) ! bi) = fragmentCount (bursts e ! bi)"
proof (induction n arbitrary: e)
  case 0
  show ?case by simp
next
  case (Suc n)
  obtain r e1 where a: "allocateParticle e = (r, e1)" by (cases "allocateParticle e")
  show ?case
  proof (cases r)
    case None
    with a alloc_none [of e] show ?thesis by simp
  next
    case (Some k)
    obtain fv a3 where d: "fragment_velocity v (rand e1) = (fv, a3)"
      by (cases "fragment_velocity v (rand e1)")
    define e2 where "e2 = push_index bi k
        (setParticle k (position (bursts e1 ! bi)) fv (multiplyScalar c 1.1) (l * 0.6) (s * 0.7)
           (g * 1.1) (burst_id (bursts e1 ! bi)) (e1\<lparr>rand := a3\<rparr>))"
    have step: "fragment_loop (Suc n) bi v c l s g e = fragment_loop n bi v c l s g e2"
      using a Some d by (simp add: e2_def Let_def)
    have f2: "freeIndices e2 = freeIndices e1"
      unfolding e2_def by (simp add: set_push_free)
    have s2: "shellType (bursts e2 ! bi) = shellType (bursts e1 ! bi)"
      "fragmentCount (bursts e2 ! bi) = fragmentCount (bursts e1 ! bi)"
      unfolding e2_def
      using set_push_shell [of bi k _ _ _ _ _ _ _ "e1\<lparr>rand := a3\<rparr>"] by simp_all
    from a alloc_free [of e] have f1: "length (freeIndices e1) \<le> length (freeIndices e)"
      "length (freeIndices e) \<le> Suc (length (freeIndices e1))" "bursts e1 = bursts e"
      by simp_all
    show ?thesis
      unfolding step using Suc [of e2] f1 f2 s2 by simp
  qed
qed

lemma explode_particle_free:
  "length (freeIndices (explode_particle cfg bi bc g ds i e)) \<le> length (freeIndices e)
   \<and> length (freeIndices e)
       \<le> length (freeIndices (explode_particle cfg bi bc g ds i e))
          + (1 + fragments_per_particle (bursts e ! bi))
   \<and> shellType (bursts (explode_particle cfg bi bc g ds i e) ! bi) = shellType (bursts e ! bi)
   \<and> fragmentCount (bursts (explode_particle cfg bi bc g ds i e) ! bi)
      = fragmentCount (bursts e ! bi)"
proof -
  obtain x a7 where d0: "particle_draw cfg bc (ds ! (i mod length ds)) (rand e) = (x, a7)"
    by (cases "particle_draw cfg bc (ds ! (i mod length ds)) (rand e)")
  obtain v c l s where x: "x = (v, c, l, s)"
    by (cases x)
  note d = d0 [unfolded x]
  define e0 where "e0 = e\<lparr>rand := a7\<rparr>"
  have e0: "freeIndices e0 = freeIndices e" "bursts e0 = bursts e"
    by (simp_all add: e0_def)
  obtain r e1 where a: "allocateParticle e0 = (r, e1)" by (cases "allocateParticle e0")
  from a alloc_free [of e0] e0 have f1: "length (freeIndices e1) \<le> length (freeIndices e)"
    "length (freeIndices e) \<le> Suc (length (freeIndices e1))" "bursts e1 = bursts e"
    by simp_all
  show ?thesis
  proof (cases r)
    case None
    with a d alloc_none [of e0] have "explode_particle cfg bi bc g ds i e = e0"
      by (simp add: explode_particle_def Let_def e0_def)
    with e0 show ?thesis by simp
  next
    case (Some k)
    define e2 where "e2 = push_index bi k
        (setParticle k (position (bursts e ! bi)) v c l s g (burst_id (bursts e ! bi)) e1)"
    define e3 where "e3 = e2\<lparr>rand := snd (mulberry32 (rand e2))\<rparr>"
    have ep: "explode_particle cfg bi bc g ds i e =
        (if shellType (bursts e ! bi) = Crossette then
           (if fst (mulberry32 (rand e2)) < 0.25
            then fragment_loop (nat \<lceil>fragmentCount (bursts e ! bi)\<rceil>) bi v c l s g e3
            else e3)
         else e2)"
      using a Some d
      by (simp add: explode_particle_def Let_def split_beta e0_def [symmetric] e2_def e3_def)
    have f2: "freeIndices e2 = freeIndices e1"
      "shellType (bursts e2 ! bi) = shellType (bursts e ! bi)"
      "fragmentCount (bursts e2 ! bi) = fragmentCount (bursts e ! bi)"
      unfolding e2_def
      using set_push_shell [of bi k "position (bursts e ! bi)" v c l s g
          "burst_id (bursts e ! bi)" e1] f1(3)
      by (simp_all add: set_push_free)
    have f3: "freeIndices e3 = freeIndices e2" "bursts e3 = bursts e2"
      by (simp_all add: e3_def)
    show ?thesis
      unfolding ep
      using f1 f2 f3
        fragment_loop_free [of "nat \<lceil>fragmentCount (bursts e ! bi)\<rceil>" bi v c l s g e3]
      by (simp add: fragments_per_particle_def)
  qed
qed

lemma explode_loop_free:
  "length (freeIndices (explode_loop cfg bi bc g ds i n e)) \<le> length (freeIndices e)
   \<and> length (freeIndices e)
       \<le> length (freeIndices (explode_loop cfg bi bc g ds i n e))
          + n * (1 + fragments_per_particle (bursts e ! bi))"
proof (induction n arbitrary: i e)
  case 0
  show ?case by simp
next
  case (Suc n)
  have k: "fragments_per_particle (bursts (explode_particle cfg bi bc g ds i e) ! bi)
           = fragments_per_particle (bursts e ! bi)"
    using explode_particle_free [of cfg bi bc g ds i e]
    by (simp add: fragments_per_particle_def)
  show ?case
    using Suc [of "Suc i" "explode_particle cfg bi bc g ds i e"]
      explode_particle_free [of cfg bi bc g ds i e]
    unfolding k by simp
qed

lemma explosion_count_le: "explosion_count b \<le> 6000"
  by (simp add: explosion_count_def MAX_PARTICLES_def)

lemma crossette_no_draw: "snd (gen_loop crossette_dir i n a) = a"
  by (induction n arbitrary: i) (simp_all add: crossette_dir_def Let_def split_beta)

lemma particle_draw_state:
  "0 \<le> a \<Longrightarrow> a + 7 * 0x6d2b79f5 < 2 ^ 53 \<Longrightarrow>
   snd (particle_draw cfg bc dir a) = a + 7 * 0x6d2b79f5"
  by (simp add: particle_draw_def Let_def split_beta mulberry32_state)

lemma fragment_velocity_state:
  "0 \<le> a \<Longrightarrow> a + 3 * 0x6d2b79f5 < 2 ^ 53 \<Longrightarrow>
   snd (fragment_velocity v a) = a + 3 * 0x6d2b79f5"
  by (simp add: fragment_velocity_def Let_def split_beta mulberry32_state)

text \<open>
  C4, as stated, fails: a crossette burst with a particle count of 1 and a fragment count
  of 1 (so that the cap is 1) allocates two slots when the draw after the primary
  particle is below 0.25: the primary particle and its fragment.
\<close>

theorem crossette_exceeds_cap:
  "(case explodeBurst one_particle_shells 0 crossette_ready of
      Inl err \<Rightarrow> False
    | Inr e' \<Rightarrow> length (freeIndices crossette_ready) - length (freeIndices e') = 2)
   \<and> explosion_count (bursts crossette_ready ! 0) = 1
   \<and> \<lfloor>sp_particles (shellParams one_particle_shells)\<rfloor> = 1"
proof -
  have b: "bursts crossette_ready ! 0 = launched Crossette (Vector3 0 320 0)"
    by (simp add: crossette_ready_def)
  have cnt: "explosion_count (launched Crossette (Vector3 0 320 0)) = 1"
    by (simp add: explosion_count_def launched_def MAX_PARTICLES_def)
  have r8: "fst (mulberry32 34799751784) < 0.25"
    by (simp add: mulberry32_def double_of_int_def Let_def)
  obtain ds where ds: "engine_burstDirections Crossette 21978791093 = (ds, 21978791093)"
    by (simp add: engine_burstDirections_def burstDirections_def split_beta crossette_no_draw)
  obtain x where d0: "particle_draw one_particle_shells (Vector3 0.1 0.2 0.65)
      (ds ! (0 mod length ds)) 21978791093 = (x, 34799751784)"
    using particle_draw_state [of 21978791093 one_particle_shells "Vector3 0.1 0.2 0.65"
        "ds ! (0 mod length ds)"]
    by (cases "particle_draw one_particle_shells (Vector3 0.1 0.2 0.65)
        (ds ! (0 mod length ds)) 21978791093") simp
  obtain v c l s where x: "x = (v, c, l, s)" by (cases x)
  obtain fv where fv: "fragment_velocity v 36631317597 = (fv, 42126015036)"
    using fragment_velocity_state [of 36631317597 v]
    by (cases "fragment_velocity v 36631317597") simp
  have f: "freeIndices (explode_particle one_particle_shells 0 (Vector3 0.1 0.2 0.65) g ds 0
             crossette_ready) = [0..<23998]" for g
    using d0 [unfolded x] r8 fv
    by (simp add: explode_particle_def crossette_ready_def new_engine_def MAX_PARTICLES_def
        launched_def allocateParticle_def setParticle_def push_index_def Let_def
        mulberry32_state split_beta butlast_upt)
  have cr: "crossette_ready\<lparr>rand := 21978791093\<rparr> = crossette_ready"
    by (simp add: crossette_ready_def)
  have sel: "color (bursts crossette_ready ! 0)
      = Some \<lparr>pc_id = ''c1'', pc_color = Vector3 0.1 0.2 0.65, pc_weight = 0.3, pc_glow = 2.4\<rparr>"
    "shellType (bursts crossette_ready ! 0) = Crossette"
    "explosion_count (bursts crossette_ready ! 0) = 1"
    "rand crossette_ready = 21978791093"
    by (simp_all add: crossette_ready_def launched_def explosion_count_def MAX_PARTICLES_def)
  have "\<exists>e'. explodeBurst one_particle_shells 0 crossette_ready = Inr e'
          \<and> freeIndices e' = [0..<23998]"
    using f [of "2.4 * sp_glow (shellParams one_particle_shells)
                 * glowGlobal (postFx one_particle_shells)"]
    by (simp add: explodeBurst_def sel ds cr Let_def)
  moreover have "length (freeIndices crossette_ready) = 24000"
    by (simp add: crossette_ready_def new_engine_def MAX_PARTICLES_def)
  moreover have "\<lfloor>sp_particles (shellParams one_particle_shells)\<rfloor> = 1"
    by (simp add: one_particle_shells_def default_settings_def)
  ultimately show ?thesis
    by (auto simp: sel)
qed

text \<open>
  C4, amended. The explosion of a burst that holds a palette colour does not throw. It
  runs \<open>count\<close> iterations, where \<open>count\<close> is the minimum of
  \<open>floor (particleCount * (0.6 if reduce-motion else 1))\<close> and a quarter of the capacity;
  each iteration allocates at most one primary particle and, for a crossette, at most
  \<open>ceiling fragmentCount\<close> fragments. So an explosion allocates at most \<open>count\<close> slots
  for an archetype other than crossette, and at most \<open>count * (1 + ceiling fragmentCount)\<close>
  slots for a crossette.
\<close>

theorem explosion_allocation_bound:
  assumes "color (bursts e ! bi) \<noteq> None"
  shows "\<exists>e'. explodeBurst cfg bi e = Inr e'
           \<and> length (freeIndices e') \<le> length (freeIndices e)
           \<and> length (freeIndices e) - length (freeIndices e')
               \<le> nat (explosion_count (bursts e ! bi))
                  * (1 + fragments_per_particle (bursts e ! bi))
           \<and> (shellType (bursts e ! bi) \<noteq> Crossette \<longrightarrow>
                length (freeIndices e) - length (freeIndices e')
                  \<le> nat (explosion_count (bursts e ! bi)))
           \<and> explosion_count (bursts e ! bi) \<le> int (MAX_PARTICLES div 4)"
proof -
  obtain pc where pc: "color (bursts e ! bi) = Some pc"
    using assms by blast
  define e0 where "e0 = e\<lparr>rand := snd (engine_burstDirections (shellType (bursts e ! bi)) (rand e))\<rparr>"
  define e1 where "e1 = explode_loop cfg bi (pc_color pc)
      (pc_glow pc * sp_glow (shellParams cfg) * glowGlobal (postFx cfg))
      (fst (engine_burstDirections (shellType (bursts e ! bi)) (rand e))) 0
      (nat (explosion_count (bursts e ! bi))) e0"
  have ex: "explodeBurst cfg bi e
            = Inr (e1\<lparr>bursts := (bursts e1)[bi := (bursts e1 ! bi)\<lparr>exploded := True\<rparr>]\<rparr>)"
    using pc by (simp add: explodeBurst_def Let_def split_beta e1_def e0_def)
  have e0: "freeIndices e0 = freeIndices e" "bursts e0 = bursts e"
    by (simp_all add: e0_def)
  have b: "length (freeIndices e1) \<le> length (freeIndices e)"
    "length (freeIndices e) \<le> length (freeIndices e1)
       + nat (explosion_count (bursts e ! bi)) * (1 + fragments_per_particle (bursts e ! bi))"
    using explode_loop_free [of cfg bi "pc_color pc"
        "pc_glow pc * sp_glow (shellParams cfg) * glowGlobal (postFx cfg)"
        "fst (engine_burstDirections (shellType (bursts e ! bi)) (rand e))" 0
        "nat (explosion_count (bursts e ! bi))" e0]
    unfolding e1_def [symmetric] e0 by simp_all
  have "explosion_count (bursts e ! bi) \<le> int (MAX_PARTICLES div 4)"
    by (simp add: explosion_count_def)
  with ex b show ?thesis
    by (auto simp: fragments_per_particle_def)
qed

theorem explosion_allocation_bound_witness:
  "color (bursts crossette_ready ! 0) \<noteq> None
   \<and> (\<exists>e'. explodeBurst one_particle_shells 0 crossette_ready = Inr e'
          \<and> length (freeIndices crossette_ready) - length (freeIndices e')
              \<le> nat (explosion_count (bursts crossette_ready ! 0))
                 * (1 + fragments_per_particle (bursts crossette_ready ! 0)))"
proof -
  have c: "color (bursts crossette_ready ! 0) \<noteq> None"
    by (simp add: crossette_ready_def launched_def)
  show ?thesis
    using c explosion_allocation_bound [OF c, of one_particle_shells] by blast
qed

section \<open>Conservation of the pool\<close>






























text \<open>
  The index lists of the bursts are not part of the amended claim. \<^verbatim>\<open>owners\<close> is an
  \<^verbatim>\<open>Int32Array\<close>, so the id of the owning burst is stored truncated, and
  \<^verbatim>\<open>releaseParticle\<close> looks the truncated id up in \<^verbatim>\<open>burstMap\<close>: for a burst whose id has a
  fraction the look-up finds nothing and the released slot stays in the burst's list. In
  \<open>stale_index_after_release\<close> the first of two bursts explodes into one particle in slot
  23999, \<^verbatim>\<open>updateParticles\<close> releases the slot (the spark lifetime is 0) and the burst
  still lists it, and the explosion of the second burst writes the same slot: it is then
  in the lists of both.
\<close>

lemma ToInt32_fraction: "ToInt32 (2469 / 2) = 1234" "ToInt32 (4691 / 2) = 2345"
  by (simp_all add: ToInt32_def)

lemma particle_draw_life:
  "sp_sparkLifetime (shellParams cfg) = 0 \<Longrightarrow>
   fst (snd (snd (fst (particle_draw cfg bc dir a)))) = 0"
  by (simp add: particle_draw_def Let_def split_beta)

lemma explode_single:
  assumes bi: "bi < length (bursts e)"
    and col: "color (bursts e ! bi) = Some pc"
    and cnt: "explosion_count (bursts e ! bi) = 1"
    and ty: "shellType (bursts e ! bi) \<noteq> Crossette"
    and fr: "freeIndices e \<noteq> []"
    and ex: "last (freeIndices e) < length (extras e)"
    and lt: "sp_sparkLifetime (shellParams cfg) = 0"
  shows "\<exists>e'. explodeBurst cfg bi e = Inr e'
           \<and> map indices (bursts e')
               = (map indices (bursts e))[bi := indices (bursts e ! bi) @ [last (freeIndices e)]]
           \<and> map burst_id (bursts e') = map burst_id (bursts e)
           \<and> map color (bursts e') = map color (bursts e)
           \<and> map shellType (bursts e') = map shellType (bursts e)
           \<and> map explosion_count (bursts e') = map explosion_count (bursts e)
           \<and> freeIndices e' = butlast (freeIndices e)
           \<and> activeIndices e' = activeIndices e @ [last (freeIndices e)]
           \<and> owners e' = (owners e)[last (freeIndices e) := ToInt32 (burst_id (bursts e ! bi))]
           \<and> burstMap e' = burstMap e
           \<and> length (extras e') = length (extras e)
           \<and> life (extras e' ! last (freeIndices e)) = 0"
proof -
  define k where "k = last (freeIndices e)"
  define ds where "ds = fst (engine_burstDirections (shellType (bursts e ! bi)) (rand e))"
  define a1 where "a1 = snd (engine_burstDirections (shellType (bursts e ! bi)) (rand e))"
  define bc where "bc = pc_color pc"
  define g where "g = pc_glow pc * sp_glow (shellParams cfg) * glowGlobal (postFx cfg)"
  obtain x a7 where d0: "particle_draw cfg bc (ds ! (0 mod length ds)) a1 = (x, a7)"
    by (cases "particle_draw cfg bc (ds ! (0 mod length ds)) a1")
  obtain v c l s where x: "x = (v, c, l, s)" by (cases x)
  have l0: "l = 0"
    using particle_draw_life [OF lt, of bc "ds ! (0 mod length ds)" a1] d0 x by simp
  define e2 where "e2 = push_index bi k
      (setParticle k (position (bursts e ! bi)) v c l s g (burst_id (bursts e ! bi))
         (e\<lparr>rand := a7, freeIndices := butlast (freeIndices e)\<rparr>))"
  have al: "allocateParticle (e\<lparr>rand := a7\<rparr>)
            = (Some k, e\<lparr>rand := a7, freeIndices := butlast (freeIndices e)\<rparr>)"
    using fr by (simp add: allocateParticle_def k_def)
  have ep: "explode_particle cfg bi bc g ds 0 (e\<lparr>rand := a1\<rparr>) = e2"
    using d0 [unfolded x] al ty
    by (simp add: explode_particle_def Let_def e2_def)
  have "explodeBurst cfg bi e
        = Inr (e2\<lparr>bursts := (bursts e2)[bi := (bursts e2 ! bi)\<lparr>exploded := True\<rparr>]\<rparr>)"
    using col cnt ep
    by (simp add: explodeBurst_def Let_def split_beta ds_def a1_def bc_def g_def)
  moreover have bs: "(bursts e2)[bi := (bursts e2 ! bi)\<lparr>exploded := True\<rparr>]
      = (bursts e)[bi := (bursts e ! bi)\<lparr>indices := indices (bursts e ! bi) @ [k],
                                            exploded := True\<rparr>]"
    using bi by (simp add: e2_def push_index_def setParticle_def)
  moreover have "map burst_id ((bursts e)[bi := (bursts e ! bi)\<lparr>indices := ix, exploded := True\<rparr>])
                 = map burst_id (bursts e)" for ix
    using bi by (simp add: map_update list_update_same_conv)
  moreover have "map color ((bursts e)[bi := (bursts e ! bi)\<lparr>indices := ix, exploded := True\<rparr>])
                 = map color (bursts e)" for ix
    using bi by (simp add: map_update list_update_same_conv)
  moreover have "map shellType ((bursts e)[bi := (bursts e ! bi)\<lparr>indices := ix, exploded := True\<rparr>])
                 = map shellType (bursts e)" for ix
    using bi by (simp add: map_update list_update_same_conv)
  moreover have "map explosion_count
                   ((bursts e)[bi := (bursts e ! bi)\<lparr>indices := ix, exploded := True\<rparr>])
                 = map explosion_count (bursts e)" for ix
    using bi by (simp add: map_update list_update_same_conv explosion_count_def)
  moreover have "map indices ((bursts e)[bi := (bursts e ! bi)\<lparr>indices := ix, exploded := True\<rparr>])
                 = (map indices (bursts e))[bi := ix]" for ix
    using bi by (simp add: map_update)
  moreover have "life (extras e2 ! k) = 0"
    using ex l0 by (simp add: e2_def push_index_def setParticle_def k_def)
  moreover have "freeIndices e2 = butlast (freeIndices e)"
    "activeIndices e2 = activeIndices e @ [k]"
    "owners e2 = (owners e)[k := ToInt32 (burst_id (bursts e ! bi))]"
    "burstMap e2 = burstMap e" "length (extras e2) = length (extras e)"
    by (simp_all add: e2_def push_index_def setParticle_def)
  ultimately show ?thesis
    unfolding k_def [symmetric] by simp
qed

lemma expire_single:
  assumes "activeIndices e = [k]" and "life (extras e ! k) \<le> 0"
  shows "updateParticles cfg d e = releaseParticle k (e\<lparr>activeIndices := []\<rparr>)"
  using assms by (simp add: updateParticles_def particle_step_def Let_def splice1_def)

lemma nth_of_map_eq:
  "map f xs = map f ys \<Longrightarrow> i < length ys \<Longrightarrow> f (xs ! i) = f (ys ! i)"
  by (metis length_map nth_map)

lemma stale_index_after_release:
  "(case explodeBurst no_lifetime 0 two_shells of
      Inl err \<Rightarrow> False
    | Inr e1 \<Rightarrow>
        map indices (bursts e1) = [[23999], []]
        \<and> map indices (bursts (updateParticles no_lifetime 0.016 e1)) = [[23999], []]
        \<and> activeIndices (updateParticles no_lifetime 0.016 e1) = []
        \<and> last (freeIndices (updateParticles no_lifetime 0.016 e1)) = 23999
        \<and> (case explodeBurst no_lifetime 1 (updateParticles no_lifetime 0.016 e1) of
              Inl err \<Rightarrow> False
            | Inr e3 \<Rightarrow> map indices (bursts e3) = [[23999], [23999]]))"
proof -
  have lt: "sp_sparkLifetime (shellParams no_lifetime) = 0"
    by (simp add: no_lifetime_def)
  have t0: "length (bursts two_shells) = 2"
    "map indices (bursts two_shells) = [[], []]"
    "map burst_id (bursts two_shells) = [1234.5, 2345.5]"
    "map shellType (bursts two_shells) = [Peony, Peony]"
    "map explosion_count (bursts two_shells) = [1, 1]"
    "freeIndices two_shells = [0..<24000]" "activeIndices two_shells = []"
    "owners two_shells = replicate 24000 (- 1)"
    "burstMap two_shells = (\<lambda>k. None)(1234.5 \<mapsto> 0, 2345.5 \<mapsto> 1)"
    "length (extras two_shells) = 24000"
    by (simp_all add: two_shells_def new_engine_def launched_def MAX_PARTICLES_def
        explosion_count_def)
  obtain pc where c0: "color (bursts two_shells ! 0) = Some pc"
    and c1: "color (bursts two_shells ! 1) = Some pc"
    by (simp add: two_shells_def launched_def)
  have s0: "bursts two_shells ! 0 = launched Peony (Vector3 0 320 0)"
    by (simp add: two_shells_def)
  have p0: "explosion_count (bursts two_shells ! 0) = 1"
    "shellType (bursts two_shells ! 0) \<noteq> Crossette"
    "burst_id (bursts two_shells ! 0) = 1234.5"
    by (simp_all add: s0 launched_def explosion_count_def MAX_PARTICLES_def)
  have "\<exists>e'. explodeBurst no_lifetime 0 two_shells = Inr e'
           \<and> map indices (bursts e')
               = (map indices (bursts two_shells))
                   [0 := indices (bursts two_shells ! 0) @ [last (freeIndices two_shells)]]
           \<and> map burst_id (bursts e') = map burst_id (bursts two_shells)
           \<and> map color (bursts e') = map color (bursts two_shells)
           \<and> map shellType (bursts e') = map shellType (bursts two_shells)
           \<and> map explosion_count (bursts e') = map explosion_count (bursts two_shells)
           \<and> freeIndices e' = butlast (freeIndices two_shells)
           \<and> activeIndices e' = activeIndices two_shells @ [last (freeIndices two_shells)]
           \<and> owners e' = (owners two_shells)
                 [last (freeIndices two_shells) := ToInt32 (burst_id (bursts two_shells ! 0))]
           \<and> burstMap e' = burstMap two_shells
           \<and> length (extras e') = length (extras two_shells)
           \<and> life (extras e' ! last (freeIndices two_shells)) = 0"
    by (rule explode_single [OF _ c0 p0(1) p0(2) _ _ lt]) (simp_all add: t0)
  then obtain e1 where e1: "explodeBurst no_lifetime 0 two_shells = Inr e1"
    and r1: "map indices (bursts e1)
               = (map indices (bursts two_shells))
                   [0 := indices (bursts two_shells ! 0) @ [last (freeIndices two_shells)]]"
    and m1: "map burst_id (bursts e1) = map burst_id (bursts two_shells)"
      "map color (bursts e1) = map color (bursts two_shells)"
      "map shellType (bursts e1) = map shellType (bursts two_shells)"
      "map explosion_count (bursts e1) = map explosion_count (bursts two_shells)"
    and r2: "freeIndices e1 = butlast (freeIndices two_shells)"
      "activeIndices e1 = activeIndices two_shells @ [last (freeIndices two_shells)]"
      "owners e1 = (owners two_shells)
                 [last (freeIndices two_shells) := ToInt32 (burst_id (bursts two_shells ! 0))]"
      "burstMap e1 = burstMap two_shells" "length (extras e1) = length (extras two_shells)"
      "life (extras e1 ! last (freeIndices two_shells)) = 0"
    by blast
  have i0: "indices (bursts two_shells ! 0) = []"
    by (simp add: s0 launched_def)
  have i1: "map indices (bursts e1) = [[23999], []]"
    unfolding r1 by (simp add: t0 i0)
  have f1: "freeIndices e1 = [0..<23999]" "activeIndices e1 = [23999]"
    "owners e1 = (replicate 24000 (- 1))[23999 := 1234]"
    "burstMap e1 = burstMap two_shells" "length (extras e1) = 24000"
    "life (extras e1 ! 23999) = 0"
    using r2 by (simp_all add: t0 p0 butlast_upt ToInt32_fraction)
  define e2 where "e2 = updateParticles no_lifetime 0.016 e1"
  have e2: "e2 = releaseParticle 23999 (e1\<lparr>activeIndices := []\<rparr>)"
    unfolding e2_def using f1 by (intro expire_single) simp_all
  have l1: "length (bursts e1) = 2"
    using i1 by (metis length_map length_Cons list.size(3) numeral_2_eq_2)
  have f2: "bursts e2 = bursts e1" "freeIndices e2 = [0..<23999] @ [23999]"
    "activeIndices e2 = []" "length (extras e2) = 24000"
    unfolding e2 by (simp_all add: releaseParticle_def Let_def f1 t0)
  have q1: "color (bursts e2 ! 1) = Some pc" "explosion_count (bursts e2 ! 1) = 1"
    "shellType (bursts e2 ! 1) \<noteq> Crossette"
    using nth_of_map_eq [OF m1(2), of 1] nth_of_map_eq [OF m1(4), of 1]
      nth_of_map_eq [OF m1(3), of 1] c1 t0
    by (simp_all add: f2 two_shells_def launched_def explosion_count_def MAX_PARTICLES_def)
  have "\<exists>e'. explodeBurst no_lifetime 1 e2 = Inr e'
           \<and> map indices (bursts e')
               = (map indices (bursts e2))
                   [1 := indices (bursts e2 ! 1) @ [last (freeIndices e2)]]
           \<and> map burst_id (bursts e') = map burst_id (bursts e2)
           \<and> map color (bursts e') = map color (bursts e2)
           \<and> map shellType (bursts e') = map shellType (bursts e2)
           \<and> map explosion_count (bursts e') = map explosion_count (bursts e2)
           \<and> freeIndices e' = butlast (freeIndices e2)
           \<and> activeIndices e' = activeIndices e2 @ [last (freeIndices e2)]
           \<and> owners e' = (owners e2)
                 [last (freeIndices e2) := ToInt32 (burst_id (bursts e2 ! 1))]
           \<and> burstMap e' = burstMap e2
           \<and> length (extras e') = length (extras e2)
           \<and> life (extras e' ! last (freeIndices e2)) = 0"
    by (rule explode_single [OF _ q1(1) q1(2) q1(3) _ _ lt]) (simp_all add: f2 l1)
  then obtain e3 where e3: "explodeBurst no_lifetime 1 e2 = Inr e3"
    and r3: "map indices (bursts e3)
               = (map indices (bursts e2))
                   [1 := indices (bursts e2 ! 1) @ [last (freeIndices e2)]]"
    by blast
  have "indices (bursts e1 ! 1) = map indices (bursts e1) ! 1"
    using l1 by simp
  then have "indices (bursts e1 ! 1) = []"
    by (simp add: i1)
  then have i3: "map indices (bursts e3) = [[23999], [23999]]"
    unfolding r3 by (simp add: f2 i1)
  show ?thesis
    unfolding e1 sum.case e2_def [symmetric] e3
    using i1 i3 f2 by simp
qed


end
